theory Spec2Isabelle
  imports Main
begin

section \<open>JavaScript values\<close>

text \<open>
  The library is TypeScript; at run time its contracts, routes, options, requests and
  validated data are plain JavaScript objects. A value is modelled by \<open>jsval\<close>: an
  object is the list of its own members in the order \<open>Object.entries\<close> gives them
  (a well-formed object names each key once), a function is opaque (\<open>JFun\<close>, told apart
  by a number), and a validation schema built with the schema library's \<open>z.object\<close> is
  \<open>JZod\<close>. Numbers are integers here; members inherited from \<open>Object.prototype\<close> are
  not part of the model.
\<close>

datatype UnknownKeysParam = Strip | Strict | Passthrough

datatype literal = LStr string | LNum int | LBool bool

datatype zfield = ZodString | ZodNumber | ZodBoolean | ZodOptional zfield | ZodDefault zfield literal

record zobject =
  shape :: "(string \<times> zfield) list"
  unknownKeys :: UnknownKeysParam
  catchall :: "zfield option"

datatype jsval =
    JUndefined
  | JNull
  | JBool bool
  | JNum int
  | JStr string
  | JFun nat
  | JObj "(string \<times> jsval) list"
  | JZod zobject

text \<open>
  What a function of the model answers instead of a value: \<open>TypeError\<close> where the
  source throws one, \<open>Unmodelled\<close> where the source goes on into something the
  model does not interpret (the call of an opaque function, the members of a function
  or of a schema object, an argument outside the declared parameter type).
\<close>

datatype error = TypeError | Unmodelled

text \<open>\<open>k in obj\<close> for the own members of an object.\<close>

definition has :: "string \<Rightarrow> (string \<times> 'a) list \<Rightarrow> bool" where
  "has k kvs = (map_of kvs k \<noteq> None)"

text \<open>
  \<open>obj.k\<close> and \<open>obj?.k\<close> where neither throws: a missing member, and any member of
  \<open>undefined\<close> or \<open>null\<close> under \<open>?.\<close>, is \<open>undefined\<close>. The members the
  code asks a primitive, a function or a schema object for (\<open>method\<close>, \<open>path\<close>,
  \<open>implementation\<close>, \<open>headers\<close>) are ones these do not have. \<open>entries\<close> are the
  own members a spread copies; only a plain object has any here.
\<close>

fun member :: "jsval \<Rightarrow> string \<Rightarrow> jsval" where
  "member (JObj kvs) k = (case map_of kvs k of None \<Rightarrow> JUndefined | Some v \<Rightarrow> v)"
| "member _ k = JUndefined"

fun entries :: "jsval \<Rightarrow> (string \<times> jsval) list" where
  "entries (JObj kvs) = kvs"
| "entries _ = []"

fun typeof :: "jsval \<Rightarrow> string" where
  "typeof JUndefined = ''undefined''"
| "typeof JNull = ''object''"
| "typeof (JBool b) = ''boolean''"
| "typeof (JNum n) = ''number''"
| "typeof (JStr s) = ''string''"
| "typeof (JFun f) = ''function''"
| "typeof (JObj kvs) = ''object''"
| "typeof (JZod z) = ''object''"

fun truthy :: "jsval \<Rightarrow> bool" where
  "truthy JUndefined = False"
| "truthy JNull = False"
| "truthy (JBool b) = b"
| "truthy (JNum n) = (n \<noteq> 0)"
| "truthy (JStr s) = (s \<noteq> [])"
| "truthy _ = True"

text \<open>
  \<open>obj[k] = v\<close> on a member list: an existing key keeps its place and takes the new
  value, a new key goes last. The object spread \<open>{...a, ...b}\<close> writes the members
  of \<open>b\<close> over a copy of \<open>a\<close>.
\<close>

fun put :: "string \<Rightarrow> 'a \<Rightarrow> (string \<times> 'a) list \<Rightarrow> (string \<times> 'a) list" where
  "put k v [] = [(k, v)]"
| "put k v ((k', v') # rest) = (if k' = k then (k, v) # rest else (k', v') # put k v rest)"

definition assign :: "(string \<times> 'a) list \<Rightarrow> (string \<times> 'a) list \<Rightarrow> (string \<times> 'a) list" where
  "assign target source = fold (\<lambda>(k, v). put k v) source target"

definition spread :: "jsval \<Rightarrow> jsval \<Rightarrow> jsval" where
  "spread a b = JObj (assign (entries a) (entries b))"

section \<open>The schema library's object parser\<close>

text \<open>
  \<open>safeParse\<close> is the schema library's (zod's), not this repository's. The fragment
  the repository's tests use is modelled: an object schema has a shape of string, number
  and boolean fields, optional fields and fields with a default (\<open>.default(v)\<close>: an
  \<open>undefined\<close> input is replaced by \<open>v\<close> before the inner field parses it); a
  declared key is parsed by its field and kept when it
  was given or parsed to a value; keys outside the shape are validated by the catchall
  when there is one, and otherwise dropped (strip), kept (passthrough) or reported in
  one issue (strict). The result is the parsed object or the list of issues.
\<close>

datatype issue = InvalidType "string list" | UnrecognizedKeys "string list"

fun ofLiteral :: "literal \<Rightarrow> jsval" where
  "ofLiteral (LStr s) = JStr s"
| "ofLiteral (LNum n) = JNum n"
| "ofLiteral (LBool b) = JBool b"

fun parseField :: "zfield \<Rightarrow> jsval \<Rightarrow> jsval option" where
  "parseField ZodString v = (case v of JStr s \<Rightarrow> Some v | _ \<Rightarrow> None)"
| "parseField ZodNumber v = (case v of JNum n \<Rightarrow> Some v | _ \<Rightarrow> None)"
| "parseField ZodBoolean v = (case v of JBool b \<Rightarrow> Some v | _ \<Rightarrow> None)"
| "parseField (ZodOptional f) v = (case v of JUndefined \<Rightarrow> Some JUndefined | _ \<Rightarrow> parseField f v)"
| "parseField (ZodDefault f d) v = parseField f (case v of JUndefined \<Rightarrow> ofLiteral d | _ \<Rightarrow> v)"

fun fieldIssues :: "(string \<times> zfield) list \<Rightarrow> (string \<times> jsval) list \<Rightarrow> issue list" where
  "fieldIssues [] kvs = []"
| "fieldIssues ((k, f) # fs) kvs =
     (case parseField f (member (JObj kvs) k) of
        None \<Rightarrow> InvalidType [k] # fieldIssues fs kvs
      | Some v \<Rightarrow> fieldIssues fs kvs)"

fun fieldValues :: "(string \<times> zfield) list \<Rightarrow> (string \<times> jsval) list \<Rightarrow> (string \<times> jsval) list" where
  "fieldValues [] kvs = []"
| "fieldValues ((k, f) # fs) kvs =
     (case parseField f (member (JObj kvs) k) of
        None \<Rightarrow> fieldValues fs kvs
      | Some v \<Rightarrow> (if v \<noteq> JUndefined \<or> has k kvs then (k, v) # fieldValues fs kvs
                  else fieldValues fs kvs))"

definition extraKeys :: "zobject \<Rightarrow> (string \<times> jsval) list \<Rightarrow> (string \<times> jsval) list" where
  "extraKeys z kvs = filter (\<lambda>(k, v). \<not> has k (shape z)) kvs"

definition extraIssues :: "zobject \<Rightarrow> (string \<times> jsval) list \<Rightarrow> issue list" where
  "extraIssues z kvs =
     (case catchall z of
        Some f \<Rightarrow> concat (map (\<lambda>(k, v). case parseField f v of None \<Rightarrow> [InvalidType [k]] | Some w \<Rightarrow> [])
                     (extraKeys z kvs))
      | None \<Rightarrow> (if unknownKeys z = Strict \<and> extraKeys z kvs \<noteq> []
                 then [UnrecognizedKeys (map fst (extraKeys z kvs))] else []))"

definition extraValues :: "zobject \<Rightarrow> (string \<times> jsval) list \<Rightarrow> (string \<times> jsval) list" where
  "extraValues z kvs =
     (case catchall z of
        Some f \<Rightarrow> concat (map (\<lambda>(k, v). case parseField f v of None \<Rightarrow> [] | Some w \<Rightarrow> [(k, w)])
                     (extraKeys z kvs))
      | None \<Rightarrow> (if unknownKeys z = Passthrough then extraKeys z kvs else []))"

definition safeParse :: "zobject \<Rightarrow> jsval \<Rightarrow> issue list + jsval" where
  "safeParse z data =
     (case data of
        JObj kvs \<Rightarrow>
          (if fieldIssues (shape z) kvs @ extraIssues z kvs = []
           then Inr (JObj (fieldValues (shape z) kvs @ extraValues z kvs))
           else Inl (fieldIssues (shape z) kvs @ extraIssues z kvs))
      | _ \<Rightarrow> Inl [InvalidType []])"

section \<open>The schema validator (core, zod-utils.ts)\<close>

text \<open>
  \<open>isZodObject\<close> asks only whether the value has a member \<open>safeParse\<close> that is not
  \<open>undefined\<close>. A schema object has one; so has a plain object that happens to carry
  that key, and calling it then is a \<open>TypeError\<close>, or the call of a function the model
  does not interpret.
\<close>

fun isZodObject :: "jsval \<Rightarrow> bool" where
  "isZodObject (JZod z) = True"
| "isZodObject (JObj kvs) = (member (JObj kvs) ''safeParse'' \<noteq> JUndefined)"
| "isZodObject _ = False"

datatype result = Success jsval | Failure "issue list"

text \<open>
  The third parameter is the member \<open>passThroughExtraKeys\<close> of the options object,
  \<open>None\<close> when the caller leaves it out; its default is \<open>false\<close>.
\<close>

definition checkZodSchema :: "jsval \<Rightarrow> jsval \<Rightarrow> bool option \<Rightarrow> error + result" where
  "checkZodSchema data schema opt =
     (let passThroughExtraKeys = (case opt of None \<Rightarrow> False | Some b \<Rightarrow> b) in
      if isZodObject schema then
        (case schema of
           JZod z \<Rightarrow>
             (case safeParse z data of
                Inr parsed \<Rightarrow>
                  Inr (Success (if passThroughExtraKeys \<and> typeof data = ''object''
                                then spread data parsed else parsed))
              | Inl issues \<Rightarrow> Inr (Failure issues))
         | _ \<Rightarrow> (case member schema ''safeParse'' of JFun f \<Rightarrow> Inl Unmodelled | _ \<Rightarrow> Inl TypeError))
      else Inr (Success data))"

section \<open>The schema merger (core, zod-utils)\<close>

text \<open>
  A schema rejects unknown keys when its policy is strict and no catchall takes the
  keys outside its shape; otherwise it accepts them.
\<close>

definition rejectsUnknownKeys :: "zobject \<Rightarrow> bool" where
  "rejectsUnknownKeys z = (unknownKeys z = Strict \<and> catchall z = None)"

text \<open>
  Modelled from the spec: the body of \<open>zodMerge\<close> is not among the sources; its tests
  (zod-utils.spec), its caller \<open>recursivelyApplyOptions\<close> and the type
  \<open>UniversalMerge\<close> of its result are. An absent schema is \<open>None\<close>. Spec 4.2: both
  absent, the result is absent; only one present, the result is that one; both present,
  the result requires the union of both schemas' fields, and the field of \<open>B\<close> stands
  where a name collides; if both inputs reject unknown fields the merged schema rejects
  them, and if either input accepts them the merged schema accepts them, the weaker
  constraint winning. So the merged schema takes its way with unknown keys from \<open>B\<close>
  when \<open>B\<close> accepts them, and from \<open>A\<close> when \<open>B\<close> rejects them: it rejects them
  only when both do. That \<open>B\<close> goes first where both accept is the spec's rule for
  fields, applied to the policy as well; the spec's sentence leaves that case open.

  The sources that are present do not follow this rule in one case: the test
  \<open>should merge a non-strict and strict schema\<close> expects the merged schema to reject
  an unknown key, and \<open>UniversalMerge\<close> gives the merged object the policy of
  \<open>B\<close>. What is proved of \<open>zodMerge\<close> below is proved of the spec's rule.
\<close>

fun zodMerge :: "zobject option \<Rightarrow> zobject option \<Rightarrow> zobject option" where
  "zodMerge None None = None"
| "zodMerge (Some a) None = Some a"
| "zodMerge None (Some b) = Some b"
| "zodMerge (Some a) (Some b) =
     (let weaker = (if rejectsUnknownKeys b then a else b) in
      Some \<lparr>shape = assign (shape a) (shape b), unknownKeys = unknownKeys weaker,
            catchall = catchall weaker\<rparr>)"

section \<open>The contract builder (core, dsl.ts)\<close>

text \<open>
  \<open>isAppRoute\<close> is \<open>'method' in obj && 'path' in obj\<close>. Its parameter type
  is \<open>AppRoute | AppRouter\<close>, both plain objects; \<open>in\<close> throws on a value
  that is no object.
\<close>

fun isAppRoute :: "jsval \<Rightarrow> error + bool" where
  "isAppRoute (JObj kvs) = Inr (has ''method'' kvs \<and> has ''path'' kvs)"
| "isAppRoute (JFun f) = Inl Unmodelled"
| "isAppRoute (JZod z) = Inl Unmodelled"
| "isAppRoute _ = Inl TypeError"

text \<open>
  \<open>recursivelyApplyOptions\<close> maps the entries of the router and rebuilds an object
  from them; the callback keeps every key, so the result has the router's keys in the
  router's order. A route becomes \<open>{...value, headers: zodMerge(options?.baseHeaders,
  value.headers)}\<close>, anything else is a router and is processed recursively. \<open>zodMerge\<close>
  is not among the sources, so the builder takes the merger as its first parameter.
  \<open>options\<close> is \<open>JUndefined\<close> when the caller gives none.
\<close>

fun recursivelyApplyOptions :: "(jsval \<Rightarrow> jsval \<Rightarrow> jsval) \<Rightarrow> jsval \<Rightarrow> jsval \<Rightarrow> error + jsval"
  and applyOptionsEntries ::
    "(jsval \<Rightarrow> jsval \<Rightarrow> jsval) \<Rightarrow> (string \<times> jsval) list \<Rightarrow> jsval \<Rightarrow> error + (string \<times> jsval) list"
where
  "recursivelyApplyOptions zm (JObj kvs) options =
     (case applyOptionsEntries zm kvs options of
        Inl e \<Rightarrow> Inl e
      | Inr kvs' \<Rightarrow> Inr (JObj kvs'))"
| "recursivelyApplyOptions zm JUndefined options = Inl TypeError"
| "recursivelyApplyOptions zm JNull options = Inl TypeError"
| "recursivelyApplyOptions zm (JBool b) options = Inl Unmodelled"
| "recursivelyApplyOptions zm (JNum n) options = Inl Unmodelled"
| "recursivelyApplyOptions zm (JStr s) options = Inl Unmodelled"
| "recursivelyApplyOptions zm (JFun f) options = Inl Unmodelled"
| "recursivelyApplyOptions zm (JZod z) options = Inl Unmodelled"
| "applyOptionsEntries zm [] options = Inr []"
| "applyOptionsEntries zm ((key, value) # rest) options =
     (case isAppRoute value of
        Inl e \<Rightarrow> Inl e
      | Inr True \<Rightarrow>
          (case applyOptionsEntries zm rest options of
             Inl e \<Rightarrow> Inl e
           | Inr rest' \<Rightarrow>
               Inr ((key, JObj (put ''headers''
                                  (zm (member options ''baseHeaders'') (member value ''headers''))
                                  (entries value))) # rest'))
      | Inr False \<Rightarrow>
          (case recursivelyApplyOptions zm value options of
             Inl e \<Rightarrow> Inl e
           | Inr value' \<Rightarrow>
               (case applyOptionsEntries zm rest options of
                  Inl e \<Rightarrow> Inl e
                | Inr rest' \<Rightarrow> Inr ((key, value') # rest'))))"

text \<open>
  The merger the builder is given when both arguments are schemas or absent:
  \<open>zodMerge\<close> on values.
\<close>

fun asSchema :: "jsval \<Rightarrow> zobject option" where
  "asSchema (JZod z) = Some z"
| "asSchema _ = None"

fun ofSchema :: "zobject option \<Rightarrow> jsval" where
  "ofSchema None = JUndefined"
| "ofSchema (Some z) = JZod z"

definition zodMergeValues :: "jsval \<Rightarrow> jsval \<Rightarrow> jsval" where
  "zodMergeValues a b = ofSchema (zodMerge (asSchema a) (asSchema b))"

text \<open>
  The route leaves of a contract: \<open>routeAt router keys\<close> follows \<open>keys\<close> from the
  router down, through members that are routers, to a member that is a route.
\<close>

fun routeAt :: "jsval \<Rightarrow> string list \<Rightarrow> jsval option" where
  "routeAt router [] = None"
| "routeAt router (k # ks) =
     (case map_of (entries router) k of
        None \<Rightarrow> None
      | Some child \<Rightarrow>
          (case isAppRoute child of
             Inl e \<Rightarrow> None
           | Inr True \<Rightarrow> (if ks = [] then Some child else None)
           | Inr False \<Rightarrow> routeAt child ks))"

text \<open>
  The type \<open>AppRouter\<close> as a predicate: every member of a router is a route or a
  router.
\<close>

fun isRouter :: "jsval \<Rightarrow> bool"
  and isRouterEntries :: "(string \<times> jsval) list \<Rightarrow> bool"
where
  "isRouter (JObj kvs) = isRouterEntries kvs"
| "isRouter JUndefined = False"
| "isRouter JNull = False"
| "isRouter (JBool b) = False"
| "isRouter (JNum n) = False"
| "isRouter (JStr s) = False"
| "isRouter (JFun f) = False"
| "isRouter (JZod z) = False"
| "isRouterEntries [] = True"
| "isRouterEntries ((key, value) # rest) =
     (case isAppRoute value of
        Inl e \<Rightarrow> False
      | Inr True \<Rightarrow> isRouterEntries rest
      | Inr False \<Rightarrow> isRouter value \<and> isRouterEntries rest)"

section \<open>Route matching (next adapter, ts-rest-next.ts)\<close>

text \<open>
  \<open>s.split('/')\<close>: the pieces between the separators, so a string with \<open>n\<close>
  separators has \<open>n + 1\<close> pieces and the empty string has one, itself. The adapter
  drops the first piece (\<open>slice(1)\<close>), the one before the leading separator.
\<close>

fun split :: "char \<Rightarrow> string \<Rightarrow> string list" where
  "split c [] = [[]]"
| "split c (x # xs) =
     (if x = c then [] # split c xs
      else (case split c xs of [] \<Rightarrow> [[x]] | w # ws \<Rightarrow> (x # w) # ws))"

definition segments :: "string \<Rightarrow> string list" where
  "segments path = drop 1 (split CHR ''/'' path)"

fun startsWith :: "string \<Rightarrow> char \<Rightarrow> bool" where
  "startsWith [] c = False"
| "startsWith (x # xs) c = (x = c)"

text \<open>
  \<open>isRouteCorrect\<close>: the loop runs over every index of the template and clears
  \<open>matches\<close> at a segment that is no wildcard and differs. Reading \<open>route.path.split\<close>
  throws when the route has no path.
\<close>

definition isRouteCorrect :: "jsval \<Rightarrow> string list \<Rightarrow> string \<Rightarrow> error + bool" where
  "isRouteCorrect route query method =
     (case member route ''path'' of
        JStr path \<Rightarrow>
          (let pathAsArray = segments path in
           if length pathAsArray = length query \<and> member route ''method'' = JStr method then
             Inr (fold (\<lambda>i matches.
                          (let isCurrElementWildcard = startsWith (pathAsArray ! i) CHR '':'' in
                           if \<not> isCurrElementWildcard \<and> pathAsArray ! i \<noteq> query ! i
                           then False else matches))
                       [0..<length pathAsArray] True)
           else Inr False)
      | JUndefined \<Rightarrow> Inl TypeError
      | JNull \<Rightarrow> Inl TypeError
      | _ \<Rightarrow> Inl Unmodelled)"

definition isAppRouteWithImplementation :: "jsval \<Rightarrow> bool" where
  "isAppRouteWithImplementation obj =
     (member obj ''implementation'' \<noteq> JUndefined \<and> truthy (member obj ''method''))"

text \<open>
  \<open>mergeRouterAndImplementation\<close> attaches to every route of the contract the member
  of the implementation object under the same key.
\<close>

fun mergeRouterAndImplementation :: "jsval \<Rightarrow> jsval \<Rightarrow> error + jsval"
  and mergeEntries :: "(string \<times> jsval) list \<Rightarrow> jsval \<Rightarrow> error + (string \<times> jsval) list"
where
  "mergeRouterAndImplementation (JObj kvs) implementation =
     (case mergeEntries kvs implementation of
        Inl e \<Rightarrow> Inl e
      | Inr kvs' \<Rightarrow> Inr (JObj kvs'))"
| "mergeRouterAndImplementation JUndefined implementation = Inl TypeError"
| "mergeRouterAndImplementation JNull implementation = Inl TypeError"
| "mergeRouterAndImplementation (JBool b) implementation = Inl Unmodelled"
| "mergeRouterAndImplementation (JNum n) implementation = Inl Unmodelled"
| "mergeRouterAndImplementation (JStr s) implementation = Inl Unmodelled"
| "mergeRouterAndImplementation (JFun f) implementation = Inl Unmodelled"
| "mergeRouterAndImplementation (JZod z) implementation = Inl Unmodelled"
| "mergeEntries [] implementation = Inr []"
| "mergeEntries ((key, existing) # rest) implementation =
     (if implementation = JUndefined \<or> implementation = JNull then Inl TypeError
      else
        (let existingImpl = member implementation key in
         case isAppRoute existing of
           Inl e \<Rightarrow> Inl e
         | Inr True \<Rightarrow>
             (case mergeEntries rest implementation of
                Inl e \<Rightarrow> Inl e
              | Inr rest' \<Rightarrow>
                  Inr ((key, JObj (put ''implementation'' existingImpl (entries existing))) # rest'))
         | Inr False \<Rightarrow>
             (case mergeRouterAndImplementation existing existingImpl of
                Inl e \<Rightarrow> Inl e
              | Inr merged \<Rightarrow>
                  (case mergeEntries rest implementation of
                     Inl e \<Rightarrow> Inl e
                   | Inr rest' \<Rightarrow> Inr ((key, merged) # rest')))))"

text \<open>
  \<open>getRouteImplementation\<close> walks the keys in order, depth first, and returns the
  first route that \<open>isRouteCorrect\<close> accepts, \<open>None\<close> (\<open>null\<close>) when there is none.
\<close>

fun getRouteImplementation :: "jsval \<Rightarrow> string list \<Rightarrow> string \<Rightarrow> error + jsval option"
  and getRouteImplementationKeys ::
    "(string \<times> jsval) list \<Rightarrow> string list \<Rightarrow> string \<Rightarrow> error + jsval option"
where
  "getRouteImplementation (JObj kvs) query method = getRouteImplementationKeys kvs query method"
| "getRouteImplementation JUndefined query method = Inl TypeError"
| "getRouteImplementation JNull query method = Inl TypeError"
| "getRouteImplementation (JBool b) query method = Inl Unmodelled"
| "getRouteImplementation (JNum n) query method = Inl Unmodelled"
| "getRouteImplementation (JStr s) query method = Inl Unmodelled"
| "getRouteImplementation (JFun f) query method = Inl Unmodelled"
| "getRouteImplementation (JZod z) query method = Inl Unmodelled"
| "getRouteImplementationKeys [] query method = Inr None"
| "getRouteImplementationKeys ((key, appRoute) # rest) query method =
     (if isAppRouteWithImplementation appRoute then
        (case isRouteCorrect appRoute query method of
           Inl e \<Rightarrow> Inl e
         | Inr True \<Rightarrow> Inr (Some appRoute)
         | Inr False \<Rightarrow> getRouteImplementationKeys rest query method)
      else
        (case getRouteImplementation appRoute query method of
           Inl e \<Rightarrow> Inl e
         | Inr (Some route) \<Rightarrow> Inr (Some route)
         | Inr None \<Rightarrow> getRouteImplementationKeys rest query method))"

text \<open>
  The routes the dispatch considers: \<open>implementationAt router keys\<close> follows
  \<open>keys\<close> from the router down, through members that are not routes with an
  implementation, to a member that is one.
\<close>

fun implementationAt :: "jsval \<Rightarrow> string list \<Rightarrow> jsval option" where
  "implementationAt router [] = None"
| "implementationAt router (k # ks) =
     (case map_of (entries router) k of
        None \<Rightarrow> None
      | Some child \<Rightarrow>
          (if isAppRouteWithImplementation child then (if ks = [] then Some child else None)
           else implementationAt child ks))"

text \<open>
  A router with implementations, as \<open>AppRouterWithImplementation\<close> declares it: a
  plain object whose every member is a route with an implementation, its path a string,
  or again such a router.
\<close>

fun isRouterWithImplementation :: "jsval \<Rightarrow> bool"
  and isRouterWithImplementationEntries :: "(string \<times> jsval) list \<Rightarrow> bool"
where
  "isRouterWithImplementation (JObj kvs) = isRouterWithImplementationEntries kvs"
| "isRouterWithImplementation JUndefined = False"
| "isRouterWithImplementation JNull = False"
| "isRouterWithImplementation (JBool b) = False"
| "isRouterWithImplementation (JNum n) = False"
| "isRouterWithImplementation (JStr s) = False"
| "isRouterWithImplementation (JFun f) = False"
| "isRouterWithImplementation (JZod z) = False"
| "isRouterWithImplementationEntries [] = True"
| "isRouterWithImplementationEntries ((key, child) # rest) =
     ((if isAppRouteWithImplementation child
       then (case member child ''path'' of JStr path \<Rightarrow> True | _ \<Rightarrow> False)
       else isRouterWithImplementation child)
      \<and> isRouterWithImplementationEntries rest)"

text \<open>
  Modelled from the spec: \<open>getPathParamsFromArray\<close> (path-utils) is not among the
  sources; its callers are. Spec 4.5: walk the template's segments and the actual
  segments pairwise; for every template segment beginning with the marker, bind the
  marker's remaining characters, the parameter's name, to the corresponding actual
  segment, a raw string; other segments are not bound. The template is the route's path,
  cut into segments as route matching cuts it.
\<close>

fun extractParams :: "string list \<Rightarrow> string list \<Rightarrow> (string \<times> jsval) list \<Rightarrow> (string \<times> jsval) list" where
  "extractParams (t # ts) (a # as) bound =
     extractParams ts as (if startsWith t CHR '':'' then put (drop 1 t) (JStr a) bound else bound)"
| "extractParams ts as bound = bound"

definition getPathParamsFromArray :: "string list \<Rightarrow> jsval \<Rightarrow> error + jsval" where
  "getPathParamsFromArray urlChunks appRoute =
     (case member appRoute ''path'' of
        JStr path \<Rightarrow> Inr (JObj (extractParams (segments path) urlChunks []))
      | JUndefined \<Rightarrow> Inl TypeError
      | JNull \<Rightarrow> Inl TypeError
      | _ \<Rightarrow> Inl Unmodelled)"

section \<open>Request validation (next adapter, ts-rest-next.ts; express adapter)\<close>

text \<open>The members of the transport's request that the adapters read.\<close>

record request =
  req_url :: string
  req_method :: string
  req_params :: jsval
  req_query :: jsval
  req_headers :: jsval
  req_body :: jsval

text \<open>What \<open>getArgumentsFromRequest\<close> returns; \<open>arg_route\<close> is \<open>None\<close> for \<open>null\<close>.\<close>

record arguments =
  arg_pathParams :: jsval
  arg_query :: jsval
  arg_route :: "jsval option"

text \<open>\<open>CreateNextRouterOptions\<close>; a member left out is \<open>None\<close>.\<close>

record CreateNextRouterOptions =
  opt_jsonQuery :: "bool option"
  opt_responseValidation :: "bool option"
  opt_throwRequestValidation :: "bool option"

definition orDefault :: "CreateNextRouterOptions option \<Rightarrow> (CreateNextRouterOptions \<Rightarrow> bool option) \<Rightarrow> bool" where
  "orDefault options field =
     (case options of
        None \<Rightarrow> False
      | Some opts \<Rightarrow> (case field opts of None \<Rightarrow> False | Some b \<Rightarrow> b))"

text \<open>
  \<open>checkStandardSchema\<close> and \<open>parseJsonQueryObject\<close> (core) are not among the
  sources: the handler takes them as parameters. A check answers with a value or with
  an error; the handler reads \<open>.error\<close> and \<open>.value\<close>.
\<close>

datatype 'e checked = Value jsval | Error 'e

fun errorOf :: "'e checked \<Rightarrow> 'e option" where
  "errorOf (Value v) = None"
| "errorOf (Error e) = Some e"

fun valueOf :: "'e checked \<Rightarrow> jsval" where
  "valueOf (Value v) = v"
| "valueOf (Error e) = JUndefined"

text \<open>An error object is truthy; a missing one (\<open>undefined\<close>) is not.\<close>

fun present :: "'e option \<Rightarrow> bool" where
  "present None = False"
| "present (Some e) = True"

datatype category = PathParams | Headers | Query | Body

type_synonym validation = "category \<times> jsval \<times> jsval \<times> bool option"

datatype 'e RequestValidationError =
  RequestValidationError "'e option" "'e option" "'e option" "'e option"

datatype 'e reply = End nat | Json nat 'e | Send nat 'e

record invocation =
  inv_body :: jsval
  inv_query :: jsval
  inv_params :: jsval
  inv_headers :: jsval

datatype 'e outcome = Reply "'e reply" | Throw "'e RequestValidationError" | Invoke invocation

fun replyStatus :: "'e reply \<Rightarrow> nat" where
  "replyStatus (End status) = status"
| "replyStatus (Json status e) = status"
| "replyStatus (Send status e) = status"

fun replyBody :: "'e reply \<Rightarrow> 'e option" where
  "replyBody (End status) = None"
| "replyBody (Json status e) = Some e"
| "replyBody (Send status e) = Some e"

text \<open>The first error of a list of optional errors, in the list's order.\<close>

fun firstError :: "'e option list \<Rightarrow> 'e option" where
  "firstError [] = None"
| "firstError (None # es) = firstError es"
| "firstError (Some e # es) = Some e"

text \<open>
  \<open>handlerFactory\<close>, from the request to the call of the implementation. The result
  lists the validations the handler runs, in program order, each with the data and the
  schema it is given, and says how the handler goes on: it answers, it throws the
  aggregate error (handed to \<open>errorHandler\<close> when one is configured), or it calls the
  implementation with the four validated values. What follows the call (the
  implementation's result, response validation, the response) is not modelled.
\<close>

definition handlerFactory ::
  "(jsval \<Rightarrow> jsval \<Rightarrow> bool option \<Rightarrow> 'e checked) \<Rightarrow> (jsval \<Rightarrow> jsval) \<Rightarrow>
   (request \<Rightarrow> error + arguments) \<Rightarrow> CreateNextRouterOptions option \<Rightarrow> request \<Rightarrow>
   error + (validation list \<times> 'e outcome)" where
  "handlerFactory checkStandardSchema parseJsonQueryObject getArgumentsFromRequest options req =
     (let jsonQuery = orDefault options opt_jsonQuery;
          throwRequestValidation = orDefault options opt_throwRequestValidation in
      case getArgumentsFromRequest req of
        Inl e \<Rightarrow> Inl e
      | Inr args \<Rightarrow>
          (case arg_route args of
             None \<Rightarrow> Inr ([], Reply (End 404))
           | Some route \<Rightarrow>
               (let pathParams = arg_pathParams args;
                    pathParamsResult = checkStandardSchema pathParams (member route ''pathParams'') (Some True);
                    headersResult = checkStandardSchema (req_headers req) (member route ''headers'') (Some True);
                    query = (if jsonQuery then parseJsonQueryObject (arg_query args) else req_query req);
                    queryResult = checkStandardSchema query (member route ''query'') None;
                    bodyResult = checkStandardSchema (req_body req) (member route ''body'') None;
                    validations =
                      [(PathParams, pathParams, member route ''pathParams'', Some True),
                       (Headers, req_headers req, member route ''headers'', Some True),
                       (Query, query, member route ''query'', None),
                       (Body, req_body req, member route ''body'', None)];
                    invoke =
                      Invoke \<lparr>inv_body = valueOf bodyResult, inv_query = valueOf queryResult,
                              inv_params = valueOf pathParamsResult, inv_headers = valueOf headersResult\<rparr>
                in Inr (validations,
                     if present (errorOf pathParamsResult) \<or> present (errorOf headersResult) \<or>
                        present (errorOf queryResult) \<or> present (errorOf bodyResult)
                     then
                       (if throwRequestValidation then
                          Throw (RequestValidationError (errorOf pathParamsResult) (errorOf headersResult)
                                   (errorOf queryResult) (errorOf bodyResult))
                        else
                          (case errorOf pathParamsResult of
                             Some e \<Rightarrow> Reply (Json 400 e)
                           | None \<Rightarrow>
                          (case errorOf headersResult of
                             Some e \<Rightarrow> Reply (Send 400 e)
                           | None \<Rightarrow>
                          (case errorOf queryResult of
                             Some e \<Rightarrow> Reply (Json 400 e)
                           | None \<Rightarrow>
                          (case errorOf bodyResult of
                             Some e \<Rightarrow> Reply (Json 400 e)
                           | None \<Rightarrow> invoke)))))
                     else invoke))))"

text \<open>
  The argument function of \<open>createSingleRouteHandler\<close>: the path parameters are
  read from the URL, and the query it returns is the request's query without the keys
  that are bound path parameters.
\<close>

definition createSingleRouteHandler :: "jsval \<Rightarrow> jsval \<Rightarrow> request \<Rightarrow> error + arguments" where
  "createSingleRouteHandler appRoute implementationHandler req =
     (let route = JObj (put ''implementation'' implementationHandler (entries appRoute));
          urlChunks = segments (req_url req) in
      case getPathParamsFromArray urlChunks route of
        Inl e \<Rightarrow> Inl e
      | Inr pathParams \<Rightarrow>
          (let query = (if truthy (req_query req)
                        then JObj (filter (\<lambda>(key, v). member pathParams key = JUndefined)
                                     (entries (req_query req)))
                        else JObj []) in
           case isRouteCorrect appRoute urlChunks (req_method req) of
             Inl e \<Rightarrow> Inl e
           | Inr isValidRoute \<Rightarrow>
               Inr \<lparr>arg_pathParams = pathParams, arg_query = query,
                     arg_route = (if isValidRoute then Some route else None)\<rparr>))"

text \<open>
  The express adapter's \<open>validateRequest\<close> checks path parameters, headers and query
  with \<open>checkZodSchema\<close> and answers 400 at the first that fails; when all pass it
  returns the three results. The body is checked afterwards, by the mutation handler.
\<close>

definition validateRequest ::
  "(jsval \<Rightarrow> jsval) \<Rightarrow> bool \<Rightarrow> request \<Rightarrow> jsval \<Rightarrow>
   error + (validation list \<times> (issue list reply + result \<times> result \<times> result))" where
  "validateRequest parseJsonQueryObject jsonQuery req schema =
     (case checkZodSchema (req_params req) (member schema ''pathParams'') (Some True) of
        Inl e \<Rightarrow> Inl e
      | Inr (Failure err) \<Rightarrow>
          Inr ([(PathParams, req_params req, member schema ''pathParams'', Some True)],
               Inl (Send 400 err))
      | Inr (Success params) \<Rightarrow>
     (case checkZodSchema (req_headers req) (member schema ''headers'') (Some True) of
        Inl e \<Rightarrow> Inl e
      | Inr (Failure err) \<Rightarrow>
          Inr ([(PathParams, req_params req, member schema ''pathParams'', Some True),
                (Headers, req_headers req, member schema ''headers'', Some True)],
               Inl (Send 400 err))
      | Inr (Success headers) \<Rightarrow>
     (let query = (if jsonQuery then parseJsonQueryObject (req_query req) else req_query req) in
      case checkZodSchema query (member schema ''query'') None of
        Inl e \<Rightarrow> Inl e
      | Inr (Failure err) \<Rightarrow>
          Inr ([(PathParams, req_params req, member schema ''pathParams'', Some True),
                (Headers, req_headers req, member schema ''headers'', Some True),
                (Query, query, member schema ''query'', None)],
               Inl (Send 400 err))
      | Inr (Success q) \<Rightarrow>
          Inr ([(PathParams, req_params req, member schema ''pathParams'', Some True),
                (Headers, req_headers req, member schema ''headers'', Some True),
                (Query, query, member schema ''query'', None)],
               Inr (Success params, Success headers, Success q)))))"

section \<open>Examples, from the repository's tests and after them\<close>

text \<open>
  The sibling routes of the next adapter's test (\<open>get\<close> and \<open>getWithParams\<close>), with
  their implementations; \<open>c.response\<close> and \<open>c.body\<close> return \<open>undefined\<close>.
\<close>

definition siblingRoutes :: jsval where
  "siblingRoutes = JObj
     [(''get'', JObj [(''method'', JStr ''GET''), (''path'', JStr ''/test''),
                      (''responses'', JObj [(''200'', JUndefined)])]),
      (''getWithParams'', JObj [(''method'', JStr ''GET''), (''path'', JStr ''/test/:id''),
                                (''responses'', JObj [(''200'', JUndefined)])])]"

definition siblingImplementation :: jsval where
  "siblingImplementation = JObj [(''get'', JFun 0), (''getWithParams'', JFun 1)]"

text \<open>
  A contract with a nested router and base headers, after the one of the type inference
  test (infer-types.spec).
\<close>

definition getComments :: jsval where
  "getComments = JObj
     [(''method'', JStr ''GET''), (''path'', JStr ''/posts/:id/comments''),
      (''headers'', JZod \<lparr>shape = [(''pagination-page'', ZodString)], unknownKeys = Strip,
                          catchall = None\<rparr>),
      (''responses'', JObj [(''404'', JZod \<lparr>shape = [(''message'', ZodString)], unknownKeys = Strip,
                                               catchall = None\<rparr>)])]"

definition postsEndpoints :: jsval where
  "postsEndpoints = JObj
     [(''createPost'', JObj
         [(''method'', JStr ''POST''), (''path'', JStr ''/posts''),
          (''body'', JZod \<lparr>shape = [(''title'', ZodString), (''content'', ZodString)],
                           unknownKeys = Strip, catchall = None\<rparr>),
          (''responses'', JObj [(''201'', JUndefined)])]),
      (''nested'', JObj [(''getComments'', getComments)])]"

definition postsOptions :: jsval where
  "postsOptions = JObj
     [(''baseHeaders'', JZod \<lparr>shape = [(''Authorization'', ZodString)], unknownKeys = Strip,
                              catchall = None\<rparr>)]"

text \<open>
  A checker for the examples, from \<open>checkZodSchema\<close>: its value or its issues (a
  throw counts as an error without issues).
\<close>

definition zodChecker :: "jsval \<Rightarrow> jsval \<Rightarrow> bool option \<Rightarrow> issue list checked" where
  "zodChecker data schema opt =
     (case checkZodSchema data schema opt of
        Inr (Success v) \<Rightarrow> Value v
      | Inr (Failure issues) \<Rightarrow> Error issues
      | Inl e \<Rightarrow> Error [])"

text \<open>
  A mutation route with a path parameter schema and a body schema, and a request whose
  path parameter and body both fail them: the parameter arrives as a string, the body
  is empty.
\<close>

definition updatePost :: jsval where
  "updatePost = JObj
     [(''method'', JStr ''POST''), (''path'', JStr ''/api/posts/:id''),
      (''pathParams'', JZod \<lparr>shape = [(''id'', ZodNumber)], unknownKeys = Strip, catchall = None\<rparr>),
      (''body'', JZod \<lparr>shape = [(''title'', ZodString)], unknownKeys = Strip, catchall = None\<rparr>),
      (''responses'', JObj [(''200'', JUndefined)])]"

definition updatePostRequest :: request where
  "updatePostRequest =
     \<lparr>req_url = ''/api/posts/1'', req_method = ''POST'', req_params = JObj [(''id'', JStr ''1'')],
      req_query = JObj [(''id'', JStr ''1'')], req_headers = JObj [], req_body = JObj []\<rparr>"

text \<open>
  A query route with a path parameter and no schemas, and a request for it: the
  transport puts the matched path parameter into the request's query.
\<close>

definition getPostById :: jsval where
  "getPostById = JObj
     [(''method'', JStr ''GET''), (''path'', JStr ''/api/posts/:id''),
      (''responses'', JObj [(''200'', JUndefined)])]"

definition getPostByIdRequest :: request where
  "getPostByIdRequest =
     \<lparr>req_url = ''/api/posts/1'', req_method = ''GET'', req_params = JObj [(''id'', JStr ''1'')],
      req_query = JObj [(''id'', JStr ''1'')], req_headers = JObj [], req_body = JUndefined\<rparr>"

text \<open>
  A contract with a router nested in it and a route after the nested router, with the
  implementation object of the same form.
\<close>

definition nestedRoutes :: jsval where
  "nestedRoutes = JObj
     [(''posts'', JObj
         [(''getPost'', JObj [(''method'', JStr ''GET''), (''path'', JStr ''/posts/:id''),
                              (''responses'', JObj [(''200'', JUndefined)])]),
          (''createPost'', JObj [(''method'', JStr ''POST''), (''path'', JStr ''/posts''),
                                 (''responses'', JObj [(''201'', JUndefined)])])]),
      (''health'', JObj [(''method'', JStr ''GET''), (''path'', JStr ''/health''),
                         (''responses'', JObj [(''200'', JUndefined)])])]"

definition nestedImplementation :: jsval where
  "nestedImplementation = JObj
     [(''posts'', JObj [(''getPost'', JFun 0), (''createPost'', JFun 1)]), (''health'', JFun 2)]"

definition nestedRouter :: jsval where
  "nestedRouter = JObj
     [(''posts'', JObj
         [(''getPost'', JObj [(''method'', JStr ''GET''), (''path'', JStr ''/posts/:id''),
                              (''responses'', JObj [(''200'', JUndefined)]),
                              (''implementation'', JFun 0)]),
          (''createPost'', JObj [(''method'', JStr ''POST''), (''path'', JStr ''/posts''),
                                 (''responses'', JObj [(''201'', JUndefined)]),
                                 (''implementation'', JFun 1)])]),
      (''health'', JObj [(''method'', JStr ''GET''), (''path'', JStr ''/health''),
                         (''responses'', JObj [(''200'', JUndefined)]),
                         (''implementation'', JFun 2)])]"

text \<open>
  A route with a path parameter schema and a header schema, and a request whose path
  parameter passes and whose headers lack the declared one.
\<close>

definition deletePost :: jsval where
  "deletePost = JObj
     [(''method'', JStr ''DELETE''), (''path'', JStr ''/api/posts/:id''),
      (''pathParams'', JZod \<lparr>shape = [(''id'', ZodString)], unknownKeys = Strip, catchall = None\<rparr>),
      (''headers'', JZod \<lparr>shape = [(''x-api-key'', ZodString)], unknownKeys = Strip,
                          catchall = None\<rparr>),
      (''query'', JZod \<lparr>shape = [(''force'', ZodBoolean)], unknownKeys = Strip, catchall = None\<rparr>),
      (''responses'', JObj [(''200'', JUndefined)])]"

definition deletePostRequest :: request where
  "deletePostRequest =
     \<lparr>req_url = ''/api/posts/1'', req_method = ''DELETE'', req_params = JObj [(''id'', JStr ''1'')],
      req_query = JObj [], req_headers = JObj [(''host'', JStr ''localhost'')],
      req_body = JUndefined\<rparr>"

section \<open>Properties of member lists\<close>

lemma map_of_put: "map_of (put k v kvs) k' = (if k' = k then Some v else map_of kvs k')"
  by (induction kvs) auto

lemma has_put: "has k' (put k v kvs) = (k' = k \<or> has k' kvs)"
  by (simp add: has_def map_of_put)

lemma map_of_fold_put:
  "distinct (map fst b) \<Longrightarrow>
   map_of (fold (\<lambda>(k, v). put k v) b a) k = (case map_of b k of Some v \<Rightarrow> Some v | None \<Rightarrow> map_of a k)"
proof (induction b arbitrary: a)
  case Nil
  then show ?case by simp
next
  case (Cons x b)
  obtain k' v' where x: "x = (k', v')" by (cases x)
  from Cons.prems x have d: "distinct (map fst b)" and n: "map_of b k' = None"
    by (simp_all add: map_of_eq_None_iff)
  show ?case
  proof (cases "k = k'")
    case True
    with Cons.IH[OF d] n x show ?thesis by (simp add: map_of_put)
  next
    case False
    with Cons.IH[OF d] x show ?thesis by (simp add: map_of_put split: option.splits)
  qed
qed

lemma map_of_assign:
  "distinct (map fst b) \<Longrightarrow>
   map_of (assign a b) k = (case map_of b k of Some v \<Rightarrow> Some v | None \<Rightarrow> map_of a k)"
  unfolding assign_def by (rule map_of_fold_put)

lemma has_fold_put: "has k (fold (\<lambda>(k, v). put k v) b a) = (has k a \<or> has k b)"
proof (induction b arbitrary: a)
  case Nil
  then show ?case by (simp add: has_def)
next
  case (Cons x b)
  obtain k' v' where x: "x = (k', v')" by (cases x)
  have "has k (x # b) = (k = k' \<or> has k b)" using x by (simp add: has_def)
  with Cons.IH[of "put k' v' a"] x show ?case by (auto simp: has_put)
qed

lemma has_assign: "has k (assign a b) = (has k a \<or> has k b)"
  unfolding assign_def by (rule has_fold_put)

lemma member_spread:
  assumes "distinct (map fst (entries b))"
  shows "member (spread a b) k = (if has k (entries b) then member b k else member a k)"
proof -
  have m: "map_of (assign (entries a) (entries b)) k =
             (case map_of (entries b) k of Some v \<Rightarrow> Some v | None \<Rightarrow> map_of (entries a) k)"
    using assms by (rule map_of_assign)
  have a: "member a k = (case map_of (entries a) k of None \<Rightarrow> JUndefined | Some v \<Rightarrow> v)"
    by (cases a) simp_all
  have b: "member b k = (case map_of (entries b) k of None \<Rightarrow> JUndefined | Some v \<Rightarrow> v)"
    by (cases b) simp_all
  show ?thesis
    unfolding spread_def member.simps m a b by (simp add: has_def split: option.splits)
qed

section \<open>Properties of the schema validator\<close>

lemma safeParse_Inr_object: "safeParse z data = Inr parsed \<Longrightarrow> typeof data = ''object''"
  by (cases data) (simp_all add: safeParse_def)

text \<open>
  Claim C6. Validating \<open>{a: 1, b: 2}\<close> against a schema that declares only
  \<open>{a: number}\<close> succeeds. With \<open>passThroughExtraKeys\<close> true the result is
  \<open>{a: 1, b: 2}\<close>, the validated fields written over the original object; with
  \<open>passThroughExtraKeys\<close> false, or left to its default, the result is exactly
  \<open>{a: 1}\<close>. For every schema object and every data its parser accepts: with
  \<open>passThroughExtraKeys\<close> true the result is the spread of the data and the parsed
  object, which has every key of either, a key of the parsed object with the parsed
  value and any other key with the value of the data; with \<open>passThroughExtraKeys\<close>
  false or left out the result is the parsed object alone. Data the parser rejects fail
  with the parser's issues, whatever the option.
\<close>

theorem checkZodSchema_passThroughExtraKeys:
  "checkZodSchema (JObj [(''a'', JNum 1), (''b'', JNum 2)])
     (JZod \<lparr>shape = [(''a'', ZodNumber)], unknownKeys = Strip, catchall = None\<rparr>) (Some True)
   = Inr (Success (JObj [(''a'', JNum 1), (''b'', JNum 2)]))
   \<and> checkZodSchema (JObj [(''a'', JNum 1), (''b'', JNum 2)])
     (JZod \<lparr>shape = [(''a'', ZodNumber)], unknownKeys = Strip, catchall = None\<rparr>) (Some False)
   = Inr (Success (JObj [(''a'', JNum 1)]))
   \<and> checkZodSchema (JObj [(''a'', JNum 1), (''b'', JNum 2)])
     (JZod \<lparr>shape = [(''a'', ZodNumber)], unknownKeys = Strip, catchall = None\<rparr>) None
   = Inr (Success (JObj [(''a'', JNum 1)]))
   \<and> (safeParse z data = Inr parsed \<longrightarrow>
        checkZodSchema data (JZod z) (Some True) = Inr (Success (spread data parsed))
        \<and> checkZodSchema data (JZod z) (Some False) = Inr (Success parsed)
        \<and> checkZodSchema data (JZod z) None = Inr (Success parsed)
        \<and> has k (entries (spread data parsed)) = (has k (entries data) \<or> has k (entries parsed))
        \<and> (distinct (map fst (entries parsed)) \<longrightarrow>
             member (spread data parsed) k =
               (if has k (entries parsed) then member parsed k else member data k)))
   \<and> (safeParse z data = Inl issues \<longrightarrow> checkZodSchema data (JZod z) opt = Inr (Failure issues))"
proof (intro conjI impI)
  assume p: "safeParse z data = Inr parsed"
  note t = safeParse_Inr_object[OF p]
  from p t show "checkZodSchema data (JZod z) (Some True) = Inr (Success (spread data parsed))"
    by (simp add: checkZodSchema_def)
  from p show "checkZodSchema data (JZod z) (Some False) = Inr (Success parsed)"
    by (simp add: checkZodSchema_def)
  from p show "checkZodSchema data (JZod z) None = Inr (Success parsed)"
    by (simp add: checkZodSchema_def)
  show "has k (entries (spread data parsed)) = (has k (entries data) \<or> has k (entries parsed))"
    by (simp add: spread_def has_assign)
next
  assume "distinct (map fst (entries parsed))"
  then show "member (spread data parsed) k =
               (if has k (entries parsed) then member parsed k else member data k)"
    by (rule member_spread)
next
  assume "safeParse z data = Inl issues"
  then show "checkZodSchema data (JZod z) opt = Inr (Failure issues)"
    by (simp add: checkZodSchema_def)
qed (simp_all add: checkZodSchema_def safeParse_def extraIssues_def extraValues_def extraKeys_def
       spread_def assign_def has_def)

theorem checkZodSchema_passThroughExtraKeys_witness:
  "safeParse \<lparr>shape = [(''title'', ZodDefault ZodString (LStr ''Untitled''))], unknownKeys = Strip,
              catchall = None\<rparr>
     (JObj [(''title'', JUndefined), (''b'', JNum 2)])
   = Inr (JObj [(''title'', JStr ''Untitled'')])
   \<and> checkZodSchema (JObj [(''title'', JUndefined), (''b'', JNum 2)])
       (JZod \<lparr>shape = [(''title'', ZodDefault ZodString (LStr ''Untitled''))], unknownKeys = Strip,
              catchall = None\<rparr>) (Some True)
     = Inr (Success (JObj [(''title'', JStr ''Untitled''), (''b'', JNum 2)]))
   \<and> checkZodSchema (JObj [(''title'', JUndefined), (''b'', JNum 2)])
       (JZod \<lparr>shape = [(''title'', ZodDefault ZodString (LStr ''Untitled''))], unknownKeys = Strip,
              catchall = None\<rparr>) None
     = Inr (Success (JObj [(''title'', JStr ''Untitled'')]))
   \<and> member (spread (JObj [(''title'', JUndefined), (''b'', JNum 2)])
                (JObj [(''title'', JStr ''Untitled'')])) ''title'' = JStr ''Untitled''
   \<and> member (spread (JObj [(''title'', JUndefined), (''b'', JNum 2)])
                (JObj [(''title'', JStr ''Untitled'')])) ''b'' = JNum 2
   \<and> safeParse \<lparr>shape = [(''a'', ZodNumber)], unknownKeys = Strip, catchall = None\<rparr>
       (JObj [(''a'', JStr [])]) = Inl [InvalidType [''a'']]
   \<and> checkZodSchema (JObj [(''a'', JStr [])])
       (JZod \<lparr>shape = [(''a'', ZodNumber)], unknownKeys = Strip, catchall = None\<rparr>) (Some True)
     = Inr (Failure [InvalidType [''a'']])"
proof -
  let ?z = "\<lparr>shape = [(''title'', ZodDefault ZodString (LStr ''Untitled''))], unknownKeys = Strip,
             catchall = None\<rparr>"
  let ?data = "JObj [(''title'', JUndefined), (''b'', JNum 2)]"
  let ?parsed = "JObj [(''title'', JStr ''Untitled'')]"
  let ?n = "\<lparr>shape = [(''a'', ZodNumber)], unknownKeys = Strip, catchall = None\<rparr>"
  have p: "safeParse ?z ?data = Inr ?parsed"
    by (simp add: safeParse_def extraIssues_def extraValues_def extraKeys_def has_def)
  have s: "spread ?data ?parsed = JObj [(''title'', JStr ''Untitled''), (''b'', JNum 2)]"
    by (simp add: spread_def assign_def)
  have d: "distinct (map fst (entries ?parsed))" by simp
  have f: "safeParse ?n (JObj [(''a'', JStr [])]) = Inl [InvalidType [''a'']]"
    by (simp add: safeParse_def extraIssues_def extraValues_def extraKeys_def has_def)
  note t = checkZodSchema_passThroughExtraKeys
             [of ?z ?data ?parsed "''title''" "[InvalidType [''a'']]" None]
  note u = checkZodSchema_passThroughExtraKeys
             [of ?z ?data ?parsed "''b''" "[InvalidType [''a'']]" None]
  note v = checkZodSchema_passThroughExtraKeys
             [of ?n "JObj [(''a'', JStr [])]" ?parsed "''a''" "[InvalidType [''a'']]" "Some True"]
  have 1: "checkZodSchema ?data (JZod ?z) (Some True) = Inr (Success (spread ?data ?parsed))"
    using t p by blast
  have 2: "checkZodSchema ?data (JZod ?z) None = Inr (Success ?parsed)"
    using t p by blast
  have 3: "member (spread ?data ?parsed) ''title'' =
             (if has ''title'' (entries ?parsed) then member ?parsed ''title''
              else member ?data ''title'')"
    using t p d by blast
  have 4: "member (spread ?data ?parsed) ''b'' =
             (if has ''b'' (entries ?parsed) then member ?parsed ''b'' else member ?data ''b'')"
    using u p d by blast
  have 5: "checkZodSchema (JObj [(''a'', JStr [])]) (JZod ?n) (Some True)
             = Inr (Failure [InvalidType [''a'']])"
    using v f by blast
  from 3 have mt: "member (spread ?data ?parsed) ''title'' = JStr ''Untitled''"
    by (simp add: has_def)
  from 4 have mb: "member (spread ?data ?parsed) ''b'' = JNum 2"
    by (simp add: has_def)
  from p 1 2 mt mb f 5 show ?thesis unfolding s by simp
qed

text \<open>
  Claim C8. When the schema is absent or is no recognised schema object (\<open>isZodObject\<close>
  is false), the validator returns success with the data unchanged, whatever the data
  and whatever \<open>passThroughExtraKeys\<close> is.
\<close>

theorem checkZodSchema_without_schema:
  "\<not> isZodObject schema \<Longrightarrow> checkZodSchema data schema opt = Inr (Success data)"
  by (simp add: checkZodSchema_def)

theorem checkZodSchema_without_schema_witness:
  "\<not> isZodObject JUndefined \<and> \<not> isZodObject JNull \<and> \<not> isZodObject (JStr [])
   \<and> \<not> isZodObject (JObj [(''a'', JStr ''123'')])
   \<and> checkZodSchema (JObj [(''a'', JNum 1)]) JUndefined None = Inr (Success (JObj [(''a'', JNum 1)]))
   \<and> checkZodSchema (JObj [(''a'', JNum 1)]) JNull (Some True) = Inr (Success (JObj [(''a'', JNum 1)]))
   \<and> checkZodSchema (JObj [(''a'', JNum 1)]) (JStr []) (Some False)
       = Inr (Success (JObj [(''a'', JNum 1)]))
   \<and> checkZodSchema (JObj [(''a'', JNum 1)]) (JObj [(''a'', JStr ''123'')]) None
       = Inr (Success (JObj [(''a'', JNum 1)]))"
  using checkZodSchema_without_schema [of JUndefined "JObj [(''a'', JNum 1)]" None]
    checkZodSchema_without_schema [of JNull "JObj [(''a'', JNum 1)]" "Some True"]
    checkZodSchema_without_schema [of "JStr []" "JObj [(''a'', JNum 1)]" "Some False"]
    checkZodSchema_without_schema [of "JObj [(''a'', JStr ''123'')]" "JObj [(''a'', JNum 1)]" None]
  by simp

section \<open>Properties of the contract builder\<close>

lemma isAppRoute_Inr_obj: "isAppRoute v = Inr b \<Longrightarrow> \<exists>kvs. v = JObj kvs"
  by (cases v) auto

lemma applyOptionsEntries_Cons_Inr:
  assumes "applyOptionsEntries zm ((key, v) # rest) options = Inr kvs'"
  obtains (route) rest' where "isAppRoute v = Inr True"
      "applyOptionsEntries zm rest options = Inr rest'"
      "kvs' = (key, JObj (put ''headers'' (zm (member options ''baseHeaders'') (member v ''headers'')) (entries v))) # rest'"
    | (router) v' rest' where "isAppRoute v = Inr False"
      "recursivelyApplyOptions zm v options = Inr v'"
      "applyOptionsEntries zm rest options = Inr rest'"
      "kvs' = (key, v') # rest'"
proof (cases "isAppRoute v")
  case (Inl e)
  with assms show ?thesis by simp
next
  case (Inr b)
  show ?thesis
  proof (cases b)
    case True
    with Inr assms obtain rest' where r: "applyOptionsEntries zm rest options = Inr rest'"
      by (cases "applyOptionsEntries zm rest options") auto
    with True Inr assms
    have "kvs' = (key, JObj (put ''headers'' (zm (member options ''baseHeaders'') (member v ''headers'')) (entries v))) # rest'"
      by simp
    moreover have "isAppRoute v = Inr True" using True Inr by simp
    ultimately show ?thesis using r by (rule route[rotated 2])
  next
    case False
    with Inr assms obtain v' where v': "recursivelyApplyOptions zm v options = Inr v'"
      by (cases "recursivelyApplyOptions zm v options") auto
    with False Inr assms obtain rest' where r: "applyOptionsEntries zm rest options = Inr rest'"
      by (cases "applyOptionsEntries zm rest options") auto
    with v' False Inr assms have "kvs' = (key, v') # rest'" by simp
    moreover have "isAppRoute v = Inr False" using False Inr by simp
    ultimately show ?thesis using v' r by (rule router[rotated 3])
  qed
qed

lemma recursivelyApplyOptions_Inr:
  assumes "recursivelyApplyOptions zm router options = Inr built"
  obtains kvs kvs' where "router = JObj kvs" "built = JObj kvs'"
    "applyOptionsEntries zm kvs options = Inr kvs'"
proof (cases router)
  case (JObj kvs)
  with assms obtain kvs' where e: "applyOptionsEntries zm kvs options = Inr kvs'"
    by (cases "applyOptionsEntries zm kvs options") auto
  with JObj assms have "built = JObj kvs'" by simp
  from JObj this e show ?thesis by (rule that)
qed (use assms in simp_all)

lemma applyOptions_keys:
  "applyOptionsEntries zm kvs options = Inr kvs' \<Longrightarrow> map fst kvs' = map fst kvs"
proof (induction kvs arbitrary: kvs')
  case Nil
  then show ?case by simp
next
  case (Cons a kvs)
  obtain key v where a: "a = (key, v)" by (cases a)
  from Cons.prems[unfolded a] show ?case
  proof (cases rule: applyOptionsEntries_Cons_Inr)
    case (route rest')
    with Cons.IH a show ?thesis by simp
  next
    case (router v' rest')
    with Cons.IH a show ?thesis by simp
  qed
qed

lemma has_cong_keys: "map fst kvs' = map fst kvs \<Longrightarrow> has k kvs' = has k kvs"
proof -
  assume "map fst kvs' = map fst kvs"
  then have "fst ` set kvs' = fst ` set kvs" by (metis list.set_map)
  then show ?thesis by (simp add: has_def map_of_eq_None_iff)
qed

lemma applyOptions_isAppRoute:
  assumes "recursivelyApplyOptions zm router options = Inr built"
  shows "isAppRoute built = isAppRoute router"
proof -
  from assms obtain kvs kvs' where r: "router = JObj kvs" "built = JObj kvs'"
    and e: "applyOptionsEntries zm kvs options = Inr kvs'"
    by (rule recursivelyApplyOptions_Inr)
  from applyOptions_keys[OF e] have "has k kvs' = has k kvs" for k by (rule has_cong_keys)
  then show ?thesis using r by simp
qed

lemma applyOptions_map_of:
  "applyOptionsEntries zm kvs options = Inr kvs' \<Longrightarrow> map_of kvs k = Some child \<Longrightarrow>
   (isAppRoute child = Inr True \<and>
     map_of kvs' k = Some (JObj (put ''headers'' (zm (member options ''baseHeaders'') (member child ''headers'')) (entries child))))
   \<or> (isAppRoute child = Inr False \<and>
       (\<exists>child'. recursivelyApplyOptions zm child options = Inr child' \<and> map_of kvs' k = Some child'))"
proof (induction kvs arbitrary: kvs')
  case Nil
  then show ?case by simp
next
  case (Cons a kvs)
  obtain key v where a: "a = (key, v)" by (cases a)
  from Cons.prems(1)[unfolded a] show ?case
  proof (cases rule: applyOptionsEntries_Cons_Inr)
    case (route rest')
    show ?thesis
    proof (cases "key = k")
      case True
      with Cons.prems(2) a have "child = v" by simp
      with route True show ?thesis by simp
    next
      case False
      with Cons.prems(2) a have "map_of kvs k = Some child" by simp
      from Cons.IH[OF route(2) this] route(3) False show ?thesis by simp
    qed
  next
    case (router v' rest')
    show ?thesis
    proof (cases "key = k")
      case True
      with Cons.prems(2) a have "child = v" by simp
      with router True show ?thesis by simp
    next
      case False
      with Cons.prems(2) a have "map_of kvs k = Some child" by simp
      from Cons.IH[OF router(3) this] router(4) False show ?thesis by simp
    qed
  qed
qed

lemma routeAt_recursivelyApplyOptions:
  "recursivelyApplyOptions zm router options = Inr built \<Longrightarrow> routeAt router keys = Some leaf \<Longrightarrow>
   routeAt built keys =
     Some (JObj (put ''headers'' (zm (member options ''baseHeaders'') (member leaf ''headers'')) (entries leaf)))"
proof (induction keys arbitrary: router built)
  case Nil
  then show ?case by simp
next
  case (Cons k ks)
  from Cons.prems(1) obtain kvs kvs' where r: "router = JObj kvs" and b: "built = JObj kvs'"
    and e: "applyOptionsEntries zm kvs options = Inr kvs'"
    by (rule recursivelyApplyOptions_Inr)
  from Cons.prems(2) r obtain child where c: "map_of kvs k = Some child"
    by (cases "map_of kvs k") auto
  from applyOptions_map_of[OF e c]
  consider (route) "isAppRoute child = Inr True"
      "map_of kvs' k = Some (JObj (put ''headers'' (zm (member options ''baseHeaders'') (member child ''headers'')) (entries child)))"
    | (router) child' where "isAppRoute child = Inr False" "recursivelyApplyOptions zm child options = Inr child'"
      "map_of kvs' k = Some child'"
    by blast
  then show ?case
  proof cases
    case route
    from isAppRoute_Inr_obj[OF route(1)] obtain ckvs where ck: "child = JObj ckvs" by blast
    from Cons.prems(2) r c route(1) have l: "ks = []" "leaf = child"
      by (auto split: if_splits)
    from route(1) ck have "isAppRoute (JObj (put ''headers'' (zm (member options ''baseHeaders'') (member child ''headers'')) (entries child))) = Inr True"
      by (simp add: has_put)
    with route(2) b l show ?thesis by simp
  next
    case router
    have "routeAt child ks = Some leaf" using Cons.prems(2) r c router(1) by simp
    from Cons.IH[OF router(2) this] applyOptions_isAppRoute[OF router(2)] router(1,3) b
    show ?thesis by simp
  qed
qed

lemma recursivelyApplyOptions_total:
  "isRouter router \<Longrightarrow> \<exists>built. recursivelyApplyOptions zm router options = Inr built"
  "isRouterEntries kvs \<Longrightarrow> \<exists>kvs'. applyOptionsEntries zm kvs options = Inr kvs'"
proof (induction zm router options and zm kvs options
       rule: recursivelyApplyOptions_applyOptionsEntries.induct)
  case (1 zm kvs options)
  then show ?case by auto
next
  case (10 zm key v rest options)
  show ?case
  proof (cases "isAppRoute v")
    case (Inl e)
    with 10(4) show ?thesis by simp
  next
    case (Inr b)
    show ?thesis
    proof (cases b)
      case True
      then have bt: "b = True" by simp
      from True Inr 10(4) have "isRouterEntries rest" by simp
      with 10(1)[OF Inr bt] obtain rest' where "applyOptionsEntries zm rest options = Inr rest'" by blast
      with Inr True show ?thesis by simp
    next
      case False
      then have bf: "b = False" by simp
      from False Inr 10(4) have rr: "isRouter v" "isRouterEntries rest" by simp_all
      from 10(2)[OF Inr bf rr(1)] obtain v' where v': "recursivelyApplyOptions zm v options = Inr v'" by blast
      from 10(3)[OF Inr bf v' rr(2)] obtain rest' where "applyOptionsEntries zm rest options = Inr rest'" by blast
      with Inr False v' show ?thesis by simp
    qed
  qed
qed simp_all

text \<open>
  Claim C9. For every router tree and every options object, the builder returns a tree
  in which every route leaf of the input stands at the same keys, and every member of
  the leaf other than \<open>headers\<close> (method, path, responses, body, query, pathParams,
  strictStatusCodes, metadata and any other) is the member of the input leaf, present
  exactly when it was; only \<open>headers\<close> is replaced, by the merge of the options'
  \<open>baseHeaders\<close> with the route's own headers. The merger is any function.
\<close>

theorem recursivelyApplyOptions_frame:
  assumes "isRouter router" and "routeAt router keys = Some leaf"
  shows "\<exists>built leaf'.
           recursivelyApplyOptions zm router options = Inr built \<and>
           routeAt built keys = Some leaf' \<and>
           (\<forall>k. k \<noteq> ''headers'' \<longrightarrow>
                  member leaf' k = member leaf k \<and> has k (entries leaf') = has k (entries leaf)) \<and>
           member leaf' ''headers'' = zm (member options ''baseHeaders'') (member leaf ''headers'')"
proof -
  from recursivelyApplyOptions_total(1)[OF assms(1)]
  obtain built where b: "recursivelyApplyOptions zm router options = Inr built" by blast
  let ?h = "zm (member options ''baseHeaders'') (member leaf ''headers'')"
  let ?leaf' = "JObj (put ''headers'' ?h (entries leaf))"
  from routeAt_recursivelyApplyOptions[OF b assms(2)]
  have r: "routeAt built keys = Some ?leaf'" .
  have m: "member ?leaf' k = (if k = ''headers'' then ?h else member leaf k)" for k
    by (cases leaf) (simp_all add: map_of_put)
  have h: "has k (entries ?leaf') = (k = ''headers'' \<or> has k (entries leaf))" for k
    by (simp add: has_put)
  from b r m h show ?thesis by auto
qed

theorem recursivelyApplyOptions_frame_witness:
  "isRouter postsEndpoints \<and>
   routeAt postsEndpoints [''nested'', ''getComments''] = Some getComments \<and>
   (\<exists>built leaf'.
      recursivelyApplyOptions zodMergeValues postsEndpoints postsOptions = Inr built \<and>
      routeAt built [''nested'', ''getComments''] = Some leaf' \<and>
      member leaf' ''method'' = JStr ''GET'' \<and>
      member leaf' ''path'' = JStr ''/posts/:id/comments'' \<and>
      member leaf' ''strictStatusCodes'' = JUndefined \<and>
      member leaf' ''headers'' =
        JZod \<lparr>shape = [(''Authorization'', ZodString), (''pagination-page'', ZodString)],
              unknownKeys = Strip, catchall = None\<rparr>)"
proof -
  have 1: "isRouter postsEndpoints"
    by (simp add: postsEndpoints_def getComments_def has_def)
  have 2: "routeAt postsEndpoints [''nested'', ''getComments''] = Some getComments"
    by (simp add: postsEndpoints_def getComments_def has_def)
  from recursivelyApplyOptions_frame[OF 1 2, of zodMergeValues postsOptions]
  obtain built leaf' where
    b: "recursivelyApplyOptions zodMergeValues postsEndpoints postsOptions = Inr built"
    and r: "routeAt built [''nested'', ''getComments''] = Some leaf'"
    and f: "\<And>k. k \<noteq> ''headers'' \<Longrightarrow> member leaf' k = member getComments k"
    and h: "member leaf' ''headers''
              = zodMergeValues (member postsOptions ''baseHeaders'') (member getComments ''headers'')"
    by blast
  have "member leaf' ''method'' = JStr ''GET''"
    using f[of "''method''"] by (simp add: getComments_def)
  moreover have "member leaf' ''path'' = JStr ''/posts/:id/comments''"
    using f[of "''path''"] by (simp add: getComments_def)
  moreover have "member leaf' ''strictStatusCodes'' = JUndefined"
    using f[of "''strictStatusCodes''"] by (simp add: getComments_def)
  moreover have "member leaf' ''headers'' =
        JZod \<lparr>shape = [(''Authorization'', ZodString), (''pagination-page'', ZodString)],
              unknownKeys = Strip, catchall = None\<rparr>"
    using h by (simp add: getComments_def postsOptions_def zodMergeValues_def assign_def)
  ultimately show ?thesis using 1 2 b r by blast
qed

text \<open>
  Claim C3, evaluated on the contract test's input (dsl.spec, pathPrefix). The test
  builds a router holding the route \<open>/:id\<close> with the option \<open>pathPrefix: '/posts'\<close>,
  nests the result under \<open>posts\<close> in a router built with \<open>pathPrefix: '/v1'\<close>,
  and expects the paths \<open>/posts/:id\<close> and \<open>/v1/posts/:id\<close>. The builder reads
  no member of the options but \<open>baseHeaders\<close>: both paths stay \<open>/:id\<close>.
\<close>

theorem recursivelyApplyOptions_pathPrefix:
  "recursivelyApplyOptions zodMergeValues
     (JObj [(''getPost'', JObj [(''path'', JStr ''/:id''), (''method'', JStr ''GET''),
                                (''responses'', JObj [(''200'', JUndefined)])])])
     (JObj [(''pathPrefix'', JStr ''/posts'')])
   = Inr (JObj [(''getPost'', JObj [(''path'', JStr ''/:id''), (''method'', JStr ''GET''),
                                    (''responses'', JObj [(''200'', JUndefined)]),
                                    (''headers'', JUndefined)])])
   \<and> recursivelyApplyOptions zodMergeValues
     (JObj [(''posts'',
        JObj [(''getPost'', JObj [(''path'', JStr ''/:id''), (''method'', JStr ''GET''),
                                  (''responses'', JObj [(''200'', JUndefined)]),
                                  (''headers'', JUndefined)])])])
     (JObj [(''pathPrefix'', JStr ''/v1'')])
   = Inr (JObj [(''posts'',
        JObj [(''getPost'', JObj [(''path'', JStr ''/:id''), (''method'', JStr ''GET''),
                                  (''responses'', JObj [(''200'', JUndefined)]),
                                  (''headers'', JUndefined)])])])
   \<and> map_option (\<lambda>route. member route ''path'')
        (routeAt (JObj [(''posts'',
           JObj [(''getPost'', JObj [(''path'', JStr ''/:id''), (''method'', JStr ''GET''),
                                     (''responses'', JObj [(''200'', JUndefined)]),
                                     (''headers'', JUndefined)])])])
           [''posts'', ''getPost''])
       = Some (JStr ''/:id'')"
  by (simp add: has_def zodMergeValues_def)

text \<open>
  Claim C7, evaluated on the contract test's input (dsl.spec, strictStatusCodes). The
  test builds a router whose route sets no \<open>strictStatusCodes\<close> with the option
  \<open>strictStatusCodes: true\<close> and expects the route to carry \<open>true\<close>. The builder
  does not read that option: the built route has no such member.
\<close>

theorem recursivelyApplyOptions_strictStatusCodes:
  "recursivelyApplyOptions zodMergeValues
     (JObj [(''getPost'', JObj [(''method'', JStr ''GET''), (''path'', JStr ''/posts/:id''),
                                (''responses'', JObj [(''200'', JUndefined)])])])
     (JObj [(''strictStatusCodes'', JBool True)])
   = Inr (JObj [(''getPost'', JObj [(''method'', JStr ''GET''), (''path'', JStr ''/posts/:id''),
                                    (''responses'', JObj [(''200'', JUndefined)]),
                                    (''headers'', JUndefined)])])
   \<and> map_option (\<lambda>route. member route ''strictStatusCodes'')
        (routeAt (JObj [(''getPost'', JObj [(''method'', JStr ''GET''), (''path'', JStr ''/posts/:id''),
                                            (''responses'', JObj [(''200'', JUndefined)]),
                                            (''headers'', JUndefined)])])
           [''getPost''])
       = Some JUndefined"
  by (simp add: has_def zodMergeValues_def)

section \<open>Properties of route matching\<close>

lemma fold_clear: "fold (\<lambda>i matches. if P i then False else matches) xs b = (b \<and> (\<forall>i\<in>set xs. \<not> P i))"
  by (induction xs arbitrary: b) auto

lemma isRouteCorrect_characterisation:
  assumes "member route ''path'' = JStr path"
  shows "isRouteCorrect route query method =
     Inr (member route ''method'' = JStr method \<and> length (segments path) = length query \<and>
          (\<forall>i<length query. \<not> startsWith (segments path ! i) CHR '':'' \<longrightarrow> segments path ! i = query ! i))"
proof (cases "length (segments path) = length query \<and> member route ''method'' = JStr method")
  case True
  then show ?thesis
    unfolding isRouteCorrect_def assms Let_def fold_clear by auto
next
  case False
  then show ?thesis
    unfolding isRouteCorrect_def assms Let_def by auto
qed

lemma getRouteImplementation_sound:
  "getRouteImplementation router segs verb = Inr (Some found) \<Longrightarrow>
     isRouteCorrect found segs verb = Inr True"
  "getRouteImplementationKeys kvs segs verb = Inr (Some found) \<Longrightarrow>
     isRouteCorrect found segs verb = Inr True"
proof (induction router segs verb and kvs segs verb
       rule: getRouteImplementation_getRouteImplementationKeys.induct)
  case (10 key appRoute rest segs verb)
  show ?case
  proof (cases "isAppRouteWithImplementation appRoute")
    case True
    note impl = True
    show ?thesis
    proof (cases "isRouteCorrect appRoute segs verb")
      case (Inl e)
      with impl 10(4) show ?thesis by simp
    next
      case (Inr b)
      show ?thesis
      proof (cases b)
        case True
        with impl Inr 10(4) show ?thesis by simp
      next
        case False
        then have bf: "b = False" by simp
        from impl Inr False 10(4) have "getRouteImplementationKeys rest segs verb = Inr (Some found)"
          by simp
        from 10(1)[OF impl Inr bf this] show ?thesis .
      qed
    qed
  next
    case False
    note noimpl = False
    show ?thesis
    proof (cases "getRouteImplementation appRoute segs verb")
      case (Inl e)
      with noimpl 10(4) show ?thesis by simp
    next
      case (Inr res)
      show ?thesis
      proof (cases res)
        case None
        with noimpl Inr 10(4) have "getRouteImplementationKeys rest segs verb = Inr (Some found)"
          by simp
        from 10(3)[OF noimpl Inr None this] show ?thesis .
      next
        case (Some r)
        with noimpl Inr 10(4) have "r = found" by simp
        with Some Inr 10(2)[OF noimpl] show ?thesis by simp
      qed
    qed
  qed
qed simp_all

lemma getRouteImplementationKeys_None:
  "getRouteImplementationKeys kvs segs verb = Inr None \<Longrightarrow> map_of kvs k = Some child \<Longrightarrow>
   (isAppRouteWithImplementation child \<and> isRouteCorrect child segs verb = Inr False) \<or>
   (\<not> isAppRouteWithImplementation child \<and> getRouteImplementation child segs verb = Inr None)"
proof (induction kvs)
  case Nil
  then show ?case by simp
next
  case (Cons a kvs)
  obtain key v where a: "a = (key, v)" by (cases a)
  show ?case
  proof (cases "isAppRouteWithImplementation v")
    case True
    note impl = True
    show ?thesis
    proof (cases "isRouteCorrect v segs verb")
      case (Inl e)
      with impl a Cons.prems(1) show ?thesis by simp
    next
      case (Inr b)
      show ?thesis
      proof (cases b)
        case True
        with impl Inr a Cons.prems(1) show ?thesis by simp
      next
        case False
        with impl Inr a Cons.prems(1)
        have rest: "getRouteImplementationKeys kvs segs verb = Inr None" by simp
        show ?thesis
        proof (cases "key = k")
          case True
          with a Cons.prems(2) have "child = v" by simp
          with impl Inr False show ?thesis by simp
        next
          case False
          with a Cons.prems(2) have "map_of kvs k = Some child" by simp
          from Cons.IH[OF rest this] show ?thesis .
        qed
      qed
    qed
  next
    case False
    note noimpl = False
    show ?thesis
    proof (cases "getRouteImplementation v segs verb")
      case (Inl e)
      with noimpl a Cons.prems(1) show ?thesis by simp
    next
      case (Inr res)
      show ?thesis
      proof (cases res)
        case (Some r)
        with noimpl Inr a Cons.prems(1) show ?thesis by simp
      next
        case None
        with noimpl Inr a Cons.prems(1)
        have rest: "getRouteImplementationKeys kvs segs verb = Inr None" by simp
        show ?thesis
        proof (cases "key = k")
          case True
          with a Cons.prems(2) have "child = v" by simp
          with noimpl Inr None show ?thesis by simp
        next
          case False
          with a Cons.prems(2) have "map_of kvs k = Some child" by simp
          from Cons.IH[OF rest this] show ?thesis .
        qed
      qed
    qed
  qed
qed

lemma getRouteImplementation_complete:
  "getRouteImplementation router segs verb = Inr None \<Longrightarrow>
   implementationAt router keys = Some candidate \<Longrightarrow>
   isRouteCorrect candidate segs verb = Inr False"
proof (induction keys arbitrary: router)
  case Nil
  then show ?case by simp
next
  case (Cons k ks)
  from Cons.prems(2) obtain child where c: "map_of (entries router) k = Some child"
    by (cases "map_of (entries router) k") auto
  then obtain kvs where r: "router = JObj kvs" by (cases router) auto
  with Cons.prems(1) have n: "getRouteImplementationKeys kvs segs verb = Inr None" by simp
  from c r have c': "map_of kvs k = Some child" by simp
  from getRouteImplementationKeys_None[OF n c']
  show ?case
  proof
    assume h: "isAppRouteWithImplementation child \<and> isRouteCorrect child segs verb = Inr False"
    with Cons.prems(2) c have "candidate = child" by (auto split: if_splits)
    with h show ?thesis by simp
  next
    assume h: "\<not> isAppRouteWithImplementation child \<and> getRouteImplementation child segs verb = Inr None"
    with Cons.prems(2) c have "implementationAt child ks = Some candidate" by simp
    from Cons.IH[OF _ this] h show ?thesis by simp
  qed
qed

lemma getRouteImplementation_total:
  "isRouterWithImplementation router \<Longrightarrow> \<exists>result. getRouteImplementation router segs verb = Inr result"
  "isRouterWithImplementationEntries kvs \<Longrightarrow>
     \<exists>result. getRouteImplementationKeys kvs segs verb = Inr result"
proof (induction router and kvs
       rule: isRouterWithImplementation_isRouterWithImplementationEntries.induct)
  case (1 kvs)
  then show ?case by simp
next
  case (10 key child rest)
  from 10(3) have "isRouterWithImplementationEntries rest" by simp
  from 10(2)[OF this] obtain r' where r': "getRouteImplementationKeys rest segs verb = Inr r'" ..
  show ?case
  proof (cases "isAppRouteWithImplementation child")
    case True
    with 10(3) obtain path where "member child ''path'' = JStr path"
      by (cases "member child ''path''") simp_all
    from isRouteCorrect_characterisation[OF this]
    obtain b where "isRouteCorrect child segs verb = Inr b" by blast
    with True r' show ?thesis by (cases b) simp_all
  next
    case False
    with 10(3) have "isRouterWithImplementation child" by simp
    from 10(1)[OF False this] obtain r where "getRouteImplementation child segs verb = Inr r" ..
    with False r' show ?thesis by (cases r) simp_all
  qed
qed simp_all

text \<open>
  Claim C1. A route matches a request exactly when its method is the request's method,
  its template has as many segments as the request path, and every template segment
  that does not begin with \<open>:\<close> equals the request's segment at the same place;
  a segment beginning with \<open>:\<close> matches any value. The template's segments are the
  pieces of the path after its first separator. Every route the dispatch returns matches
  in this sense, and when it returns none, no route it considers does. On every router
  with implementations the dispatch returns, a route or none, and it returns a route
  whenever a route it considers matches. In particular,
  for GET \<open>/test/3\<close> against the sibling GET routes \<open>/test\<close> and \<open>/test/:id\<close>,
  the route \<open>/test\<close> does not match, the dispatch returns \<open>/test/:id\<close>, and the
  path parameter \<open>id\<close> is bound to the string \<open>3\<close>. In a contract with a nested
  router, GET \<open>/posts/7\<close> is dispatched to the route \<open>/posts/:id\<close> inside the
  nested router, GET \<open>/health\<close> to the route after it, and DELETE \<open>/posts/7\<close> to
  none.
\<close>

theorem route_matching:
  "(member route ''path'' = JStr path \<longrightarrow>
      isRouteCorrect route query method =
        Inr (member route ''method'' = JStr method \<and>
             length (segments path) = length query \<and>
             (\<forall>i<length query. \<not> startsWith (segments path ! i) CHR '':'' \<longrightarrow>
                                 segments path ! i = query ! i)))
   \<and> (getRouteImplementation router query method = Inr (Some found) \<longrightarrow>
        isRouteCorrect found query method = Inr True)
   \<and> (getRouteImplementation router query method = Inr None \<and>
        implementationAt router keys = Some candidate \<longrightarrow>
        isRouteCorrect candidate query method = Inr False)
   \<and> (isRouterWithImplementation router \<longrightarrow>
        (\<exists>result. getRouteImplementation router query method = Inr result))
   \<and> (isRouterWithImplementation router \<and> implementationAt router keys = Some candidate \<and>
        isRouteCorrect candidate query method = Inr True \<longrightarrow>
        (\<exists>matched. getRouteImplementation router query method = Inr (Some matched)))
   \<and> segments ''/test/3'' = [''test'', ''3'']
   \<and> mergeRouterAndImplementation siblingRoutes siblingImplementation =
        Inr (JObj
          [(''get'', JObj [(''method'', JStr ''GET''), (''path'', JStr ''/test''),
                           (''responses'', JObj [(''200'', JUndefined)]),
                           (''implementation'', JFun 0)]),
           (''getWithParams'', JObj [(''method'', JStr ''GET''), (''path'', JStr ''/test/:id''),
                                     (''responses'', JObj [(''200'', JUndefined)]),
                                     (''implementation'', JFun 1)])])
   \<and> isRouteCorrect (JObj [(''method'', JStr ''GET''), (''path'', JStr ''/test''),
                             (''responses'', JObj [(''200'', JUndefined)]),
                             (''implementation'', JFun 0)])
        [''test'', ''3''] ''GET'' = Inr False
   \<and> getRouteImplementation (JObj
          [(''get'', JObj [(''method'', JStr ''GET''), (''path'', JStr ''/test''),
                           (''responses'', JObj [(''200'', JUndefined)]),
                           (''implementation'', JFun 0)]),
           (''getWithParams'', JObj [(''method'', JStr ''GET''), (''path'', JStr ''/test/:id''),
                                     (''responses'', JObj [(''200'', JUndefined)]),
                                     (''implementation'', JFun 1)])])
        [''test'', ''3''] ''GET''
       = Inr (Some (JObj [(''method'', JStr ''GET''), (''path'', JStr ''/test/:id''),
                          (''responses'', JObj [(''200'', JUndefined)]),
                          (''implementation'', JFun 1)]))
   \<and> getPathParamsFromArray [''test'', ''3'']
        (JObj [(''method'', JStr ''GET''), (''path'', JStr ''/test/:id''),
               (''responses'', JObj [(''200'', JUndefined)]), (''implementation'', JFun 1)])
       = Inr (JObj [(''id'', JStr ''3'')])
   \<and> mergeRouterAndImplementation nestedRoutes nestedImplementation = Inr nestedRouter
   \<and> isRouterWithImplementation nestedRouter
   \<and> getRouteImplementation nestedRouter (segments ''/posts/7'') ''GET''
       = Inr (Some (JObj [(''method'', JStr ''GET''), (''path'', JStr ''/posts/:id''),
                          (''responses'', JObj [(''200'', JUndefined)]),
                          (''implementation'', JFun 0)]))
   \<and> getRouteImplementation nestedRouter (segments ''/health'') ''GET''
       = Inr (Some (JObj [(''method'', JStr ''GET''), (''path'', JStr ''/health''),
                          (''responses'', JObj [(''200'', JUndefined)]),
                          (''implementation'', JFun 2)]))
   \<and> getRouteImplementation nestedRouter (segments ''/posts/7'') ''DELETE'' = Inr None"
proof (intro conjI impI)
  assume "member route ''path'' = JStr path"
  then show "isRouteCorrect route query method =
        Inr (member route ''method'' = JStr method \<and>
             length (segments path) = length query \<and>
             (\<forall>i<length query. \<not> startsWith (segments path ! i) CHR '':'' \<longrightarrow>
                                 segments path ! i = query ! i))"
    by (rule isRouteCorrect_characterisation)
next
  assume "getRouteImplementation router query method = Inr (Some found)"
  then show "isRouteCorrect found query method = Inr True"
    by (rule getRouteImplementation_sound(1))
next
  assume "getRouteImplementation router query method = Inr None \<and>
          implementationAt router keys = Some candidate"
  then show "isRouteCorrect candidate query method = Inr False"
    using getRouteImplementation_complete by blast
next
  assume "isRouterWithImplementation router"
  then show "\<exists>result. getRouteImplementation router query method = Inr result"
    by (rule getRouteImplementation_total(1))
next
  assume a: "isRouterWithImplementation router \<and> implementationAt router keys = Some candidate \<and>
             isRouteCorrect candidate query method = Inr True"
  then obtain result where r: "getRouteImplementation router query method = Inr result"
    using getRouteImplementation_total(1) by blast
  show "\<exists>matched. getRouteImplementation router query method = Inr (Some matched)"
  proof (cases result)
    case None
    with r have "getRouteImplementation router query method = Inr None" by simp
    from getRouteImplementation_complete[OF this] a show ?thesis by auto
  next
    case (Some matched)
    with r show ?thesis by simp
  qed
qed (simp_all add: segments_def siblingRoutes_def siblingImplementation_def has_def
       nestedRoutes_def nestedImplementation_def nestedRouter_def
       isAppRouteWithImplementation_def isRouteCorrect_def getPathParamsFromArray_def)

theorem route_matching_witness:
  "member (JObj [(''method'', JStr ''GET''), (''path'', JStr ''/test/:id''),
                 (''responses'', JObj [(''200'', JUndefined)]), (''implementation'', JFun 1)])
      ''path'' = JStr ''/test/:id''
   \<and> getRouteImplementation (JObj
          [(''get'', JObj [(''method'', JStr ''GET''), (''path'', JStr ''/test''),
                           (''responses'', JObj [(''200'', JUndefined)]),
                           (''implementation'', JFun 0)]),
           (''getWithParams'', JObj [(''method'', JStr ''GET''), (''path'', JStr ''/test/:id''),
                                     (''responses'', JObj [(''200'', JUndefined)]),
                                     (''implementation'', JFun 1)])])
        [''test'', ''3''] ''GET''
       = Inr (Some (JObj [(''method'', JStr ''GET''), (''path'', JStr ''/test/:id''),
                          (''responses'', JObj [(''200'', JUndefined)]),
                          (''implementation'', JFun 1)]))
   \<and> isRouteCorrect (JObj [(''method'', JStr ''GET''), (''path'', JStr ''/test/:id''),
                             (''responses'', JObj [(''200'', JUndefined)]),
                             (''implementation'', JFun 1)])
        [''test'', ''3''] ''GET'' = Inr True
   \<and> getRouteImplementation (JObj
          [(''get'', JObj [(''method'', JStr ''GET''), (''path'', JStr ''/test''),
                           (''responses'', JObj [(''200'', JUndefined)]),
                           (''implementation'', JFun 0)]),
           (''getWithParams'', JObj [(''method'', JStr ''GET''), (''path'', JStr ''/test/:id''),
                                     (''responses'', JObj [(''200'', JUndefined)]),
                                     (''implementation'', JFun 1)])])
        [''test''] ''POST'' = Inr None
   \<and> implementationAt (JObj
          [(''get'', JObj [(''method'', JStr ''GET''), (''path'', JStr ''/test''),
                           (''responses'', JObj [(''200'', JUndefined)]),
                           (''implementation'', JFun 0)]),
           (''getWithParams'', JObj [(''method'', JStr ''GET''), (''path'', JStr ''/test/:id''),
                                     (''responses'', JObj [(''200'', JUndefined)]),
                                     (''implementation'', JFun 1)])])
        [''get'']
       = Some (JObj [(''method'', JStr ''GET''), (''path'', JStr ''/test''),
                     (''responses'', JObj [(''200'', JUndefined)]), (''implementation'', JFun 0)])
   \<and> isRouteCorrect (JObj [(''method'', JStr ''GET''), (''path'', JStr ''/test''),
                             (''responses'', JObj [(''200'', JUndefined)]),
                             (''implementation'', JFun 0)])
        [''test''] ''POST'' = Inr False
   \<and> isRouterWithImplementation nestedRouter
   \<and> implementationAt nestedRouter [''posts'', ''createPost'']
       = Some (JObj [(''method'', JStr ''POST''), (''path'', JStr ''/posts''),
                     (''responses'', JObj [(''201'', JUndefined)]), (''implementation'', JFun 1)])
   \<and> isRouteCorrect (JObj [(''method'', JStr ''POST''), (''path'', JStr ''/posts''),
                             (''responses'', JObj [(''201'', JUndefined)]),
                             (''implementation'', JFun 1)])
        [''posts''] ''POST'' = Inr True
   \<and> (\<exists>matched. getRouteImplementation nestedRouter [''posts''] ''POST'' = Inr (Some matched))"
proof -
  let ?r = "JObj [(''method'', JStr ''GET''), (''path'', JStr ''/test/:id''),
                  (''responses'', JObj [(''200'', JUndefined)]), (''implementation'', JFun 1)]"
  let ?g = "JObj [(''method'', JStr ''GET''), (''path'', JStr ''/test''),
                  (''responses'', JObj [(''200'', JUndefined)]), (''implementation'', JFun 0)]"
  let ?c = "JObj [(''method'', JStr ''POST''), (''path'', JStr ''/posts''),
                  (''responses'', JObj [(''201'', JUndefined)]), (''implementation'', JFun 1)]"
  let ?router = "JObj [(''get'', ?g), (''getWithParams'', ?r)]"
  note t = route_matching [of ?r "''/test/:id''" "[''test'', ''3'']" "''GET''" ?router ?r]
  note u = route_matching [of ?r "''/test/:id''" "[''test'']" "''POST''" ?router ?r "[''get'']" ?g]
  note w = route_matching [of ?c "''/posts''" "[''posts'']" "''POST''" nestedRouter ?c
                              "[''posts'', ''createPost'']" ?c]
  have p: "member ?r ''path'' = JStr ''/test/:id''" by simp
  have g: "getRouteImplementation ?router [''test'', ''3''] ''GET'' = Inr (Some ?r)"
    using t by blast
  have s: "segments ''/test/:id'' = [''test'', '':id'']" by (simp add: segments_def)
  have "isRouteCorrect ?r [''test'', ''3''] ''GET''
          = Inr (member ?r ''method'' = JStr ''GET'' \<and>
                 length (segments ''/test/:id'') = length [''test'', ''3''] \<and>
                 (\<forall>i<length [''test'', ''3''].
                     \<not> startsWith (segments ''/test/:id'' ! i) CHR '':'' \<longrightarrow>
                     segments ''/test/:id'' ! i = [''test'', ''3''] ! i))"
    using t p by blast
  also have "\<dots> = Inr True"
    unfolding s by (auto simp: less_Suc_eq numeral_2_eq_2)
  finally have c: "isRouteCorrect ?r [''test'', ''3''] ''GET'' = Inr True" .
  have n: "getRouteImplementation ?router [''test''] ''POST'' = Inr None"
    by (simp add: isAppRouteWithImplementation_def isRouteCorrect_def segments_def)
  have i: "implementationAt ?router [''get''] = Some ?g"
    by (simp add: isAppRouteWithImplementation_def)
  have f: "isRouteCorrect ?g [''test''] ''POST'' = Inr False"
    using u n i by blast
  have wf: "isRouterWithImplementation nestedRouter"
    using w by blast
  have at: "implementationAt nestedRouter [''posts'', ''createPost''] = Some ?c"
    by (simp add: nestedRouter_def isAppRouteWithImplementation_def)
  have m: "isRouteCorrect ?c [''posts''] ''POST'' = Inr True"
    by (simp add: isRouteCorrect_def segments_def)
  have d: "\<exists>matched. getRouteImplementation nestedRouter [''posts''] ''POST'' = Inr (Some matched)"
    using w wf at m by blast
  from p g c n i f wf at m d show ?thesis by blast
qed

section \<open>Properties of the schema merger\<close>





lemma zodMerge_present:
  "zodMerge (Some a) (Some b) =
     Some \<lparr>shape = assign (shape a) (shape b),
           unknownKeys = unknownKeys (if rejectsUnknownKeys b then a else b),
           catchall = catchall (if rejectsUnknownKeys b then a else b)\<rparr>"
  by (simp add: Let_def)

lemma zodMerge_rejectsUnknownKeys:
  "zodMerge (Some a) (Some b) = Some m \<Longrightarrow>
   rejectsUnknownKeys m = (rejectsUnknownKeys a \<and> rejectsUnknownKeys b)"
  unfolding zodMerge_present by (cases "rejectsUnknownKeys b") (auto simp: rejectsUnknownKeys_def)

text \<open>
  Claim C4, amended. When both schemas reject unknown keys, the merged schema rejects
  them: a strict base schema \<open>{foo: string}\<close> merged with a strict route schema
  \<open>{bar: string}\<close> rejects \<open>{foo: 'a', bar: 'b', baz: 'c'}\<close>, naming \<open>baz\<close>.
  The strict base schema merged with a route schema \<open>{bar: string}\<close> that is not
  strict accepts that input and returns exactly \<open>{foo, bar}\<close>, \<open>baz\<close> dropped; so
  does the merge of two schemas that are not strict.
\<close>

theorem zodMerge_unknown_keys:
  "(rejectsUnknownKeys a \<and> rejectsUnknownKeys b \<longrightarrow>
      map_option rejectsUnknownKeys (zodMerge (Some a) (Some b)) = Some True)
   \<and> map_option (\<lambda>m. safeParse m (JObj [(''foo'', JStr ''a''), (''bar'', JStr ''b''), (''baz'', JStr ''c'')]))
     (zodMerge (Some \<lparr>shape = [(''foo'', ZodString)], unknownKeys = Strict, catchall = None\<rparr>)
               (Some \<lparr>shape = [(''bar'', ZodString)], unknownKeys = Strict, catchall = None\<rparr>))
     = Some (Inl [UnrecognizedKeys [''baz'']])
   \<and> map_option (\<lambda>m. safeParse m (JObj [(''foo'', JStr ''a''), (''bar'', JStr ''b''), (''baz'', JStr ''c'')]))
     (zodMerge (Some \<lparr>shape = [(''foo'', ZodString)], unknownKeys = Strict, catchall = None\<rparr>)
               (Some \<lparr>shape = [(''bar'', ZodString)], unknownKeys = Strip, catchall = None\<rparr>))
     = Some (Inr (JObj [(''foo'', JStr ''a''), (''bar'', JStr ''b'')]))
   \<and> map_option (\<lambda>m. safeParse m (JObj [(''foo'', JStr ''a''), (''bar'', JStr ''b''), (''baz'', JStr ''c'')]))
     (zodMerge (Some \<lparr>shape = [(''foo'', ZodString)], unknownKeys = Strip, catchall = None\<rparr>)
               (Some \<lparr>shape = [(''bar'', ZodString)], unknownKeys = Strip, catchall = None\<rparr>))
     = Some (Inr (JObj [(''foo'', JStr ''a''), (''bar'', JStr ''b'')]))"
proof (intro conjI impI)
  assume r: "rejectsUnknownKeys a \<and> rejectsUnknownKeys b"
  obtain m where m: "zodMerge (Some a) (Some b) = Some m" unfolding zodMerge_present by blast
  from zodMerge_rejectsUnknownKeys[OF m] r have "rejectsUnknownKeys m" by simp
  with m show "map_option rejectsUnknownKeys (zodMerge (Some a) (Some b)) = Some True" by simp
qed (simp_all add: safeParse_def extraIssues_def extraValues_def extraKeys_def assign_def has_def
       rejectsUnknownKeys_def)

theorem zodMerge_unknown_keys_witness:
  "rejectsUnknownKeys \<lparr>shape = [(''foo'', ZodString)], unknownKeys = Strict, catchall = None\<rparr>
   \<and> rejectsUnknownKeys \<lparr>shape = [(''bar'', ZodString)], unknownKeys = Strict, catchall = None\<rparr>
   \<and> map_option rejectsUnknownKeys
       (zodMerge (Some \<lparr>shape = [(''foo'', ZodString)], unknownKeys = Strict, catchall = None\<rparr>)
                 (Some \<lparr>shape = [(''bar'', ZodString)], unknownKeys = Strict, catchall = None\<rparr>))
     = Some True"
proof -
  let ?a = "\<lparr>shape = [(''foo'', ZodString)], unknownKeys = Strict, catchall = None\<rparr>"
  let ?b = "\<lparr>shape = [(''bar'', ZodString)], unknownKeys = Strict, catchall = None\<rparr>"
  have a: "rejectsUnknownKeys ?a" by (simp add: rejectsUnknownKeys_def)
  have b: "rejectsUnknownKeys ?b" by (simp add: rejectsUnknownKeys_def)
  from zodMerge_unknown_keys[of ?a ?b] a b
  have "map_option rejectsUnknownKeys (zodMerge (Some ?a) (Some ?b)) = Some True" by blast
  with a b show ?thesis by blast
qed

theorem zodMerge_strict_base_counterexample:
  "rejectsUnknownKeys \<lparr>shape = [(''foo'', ZodString)], unknownKeys = Strict, catchall = None\<rparr>
   \<and> zodMerge (Some \<lparr>shape = [(''foo'', ZodString)], unknownKeys = Strict, catchall = None\<rparr>)
               (Some \<lparr>shape = [(''bar'', ZodString)], unknownKeys = Strip, catchall = None\<rparr>)
       = Some \<lparr>shape = [(''foo'', ZodString), (''bar'', ZodString)], unknownKeys = Strip, catchall = None\<rparr>
   \<and> safeParse \<lparr>shape = [(''foo'', ZodString), (''bar'', ZodString)], unknownKeys = Strip, catchall = None\<rparr>
        (JObj [(''foo'', JStr ''a''), (''bar'', JStr ''b''), (''baz'', JStr ''c'')])
       = Inr (JObj [(''foo'', JStr ''a''), (''bar'', JStr ''b'')])"
  by (simp add: safeParse_def extraIssues_def extraValues_def extraKeys_def assign_def has_def
      rejectsUnknownKeys_def)



section \<open>Properties of request validation\<close>

lemma handlerFactory_matched:
  assumes "getArgumentsFromRequest req = Inr args" and "arg_route args = Some route"
    and "query = (if orDefault options opt_jsonQuery then parseJsonQueryObject (arg_query args)
                  else req_query req)"
    and "check (arg_pathParams args) (member route ''pathParams'') (Some True) = pathParamsResult"
    and "check (req_headers req) (member route ''headers'') (Some True) = headersResult"
    and "check query (member route ''query'') None = queryResult"
    and "check (req_body req) (member route ''body'') None = bodyResult"
  shows "handlerFactory check parseJsonQueryObject getArgumentsFromRequest options req =
     Inr ([(PathParams, arg_pathParams args, member route ''pathParams'', Some True),
           (Headers, req_headers req, member route ''headers'', Some True),
           (Query, query, member route ''query'', None),
           (Body, req_body req, member route ''body'', None)],
          (case firstError [errorOf pathParamsResult, errorOf headersResult, errorOf queryResult,
                            errorOf bodyResult] of
             None \<Rightarrow> Invoke \<lparr>inv_body = valueOf bodyResult, inv_query = valueOf queryResult,
                               inv_params = valueOf pathParamsResult,
                               inv_headers = valueOf headersResult\<rparr>
           | Some e \<Rightarrow>
               (if orDefault options opt_throwRequestValidation then
                  Throw (RequestValidationError (errorOf pathParamsResult) (errorOf headersResult)
                           (errorOf queryResult) (errorOf bodyResult))
                else if present (errorOf pathParamsResult) then Reply (Json 400 e)
                else if present (errorOf headersResult) then Reply (Send 400 e)
                else Reply (Json 400 e))))"
proof -
  have "handlerFactory check parseJsonQueryObject getArgumentsFromRequest options req =
     Inr ([(PathParams, arg_pathParams args, member route ''pathParams'', Some True),
           (Headers, req_headers req, member route ''headers'', Some True),
           (Query, query, member route ''query'', None),
           (Body, req_body req, member route ''body'', None)],
          (if present (errorOf pathParamsResult) \<or> present (errorOf headersResult) \<or>
              present (errorOf queryResult) \<or> present (errorOf bodyResult)
           then
             (if orDefault options opt_throwRequestValidation then
                Throw (RequestValidationError (errorOf pathParamsResult) (errorOf headersResult)
                         (errorOf queryResult) (errorOf bodyResult))
              else
                (case errorOf pathParamsResult of
                   Some e \<Rightarrow> Reply (Json 400 e)
                 | None \<Rightarrow>
                (case errorOf headersResult of
                   Some e \<Rightarrow> Reply (Send 400 e)
                 | None \<Rightarrow>
                (case errorOf queryResult of
                   Some e \<Rightarrow> Reply (Json 400 e)
                 | None \<Rightarrow>
                (case errorOf bodyResult of
                   Some e \<Rightarrow> Reply (Json 400 e)
                 | None \<Rightarrow>
                     Invoke \<lparr>inv_body = valueOf bodyResult, inv_query = valueOf queryResult,
                             inv_params = valueOf pathParamsResult,
                             inv_headers = valueOf headersResult\<rparr>)))))
           else Invoke \<lparr>inv_body = valueOf bodyResult, inv_query = valueOf queryResult,
                         inv_params = valueOf pathParamsResult,
                         inv_headers = valueOf headersResult\<rparr>))"
    unfolding handlerFactory_def Let_def assms(1) sum.case assms(2) option.case
      assms(3)[symmetric] assms(4-7) ..
  then show ?thesis
    by (cases "errorOf pathParamsResult"; cases "errorOf headersResult";
        cases "errorOf queryResult"; cases "errorOf bodyResult") simp_all
qed

lemma validateRequest_first_failure:
  assumes "validateRequest parseJsonQueryObject jsonQuery req schema = Inr (validations, Inl reply)"
  shows "validations \<noteq> [] \<and>
         map fst validations = take (length validations) [PathParams, Headers, Query] \<and>
         (\<exists>err. reply = Send 400 err \<and>
                (case last validations of (c, d, s, p) \<Rightarrow> checkZodSchema d s p = Inr (Failure err))) \<and>
         list_all (\<lambda>(c, d, s, p). \<exists>v. checkZodSchema d s p = Inr (Success v)) (butlast validations)"
proof (cases "checkZodSchema (req_params req) (member schema ''pathParams'') (Some True)")
  case (Inl e)
  with assms show ?thesis by (simp add: validateRequest_def)
next
  case r1: (Inr r1)
  show ?thesis
  proof (cases r1)
    case (Failure err)
    with r1 assms show ?thesis by (auto simp: validateRequest_def)
  next
    case s1: (Success params)
    show ?thesis
    proof (cases "checkZodSchema (req_headers req) (member schema ''headers'') (Some True)")
      case (Inl e)
      with r1 s1 assms show ?thesis by (simp add: validateRequest_def)
    next
      case r2: (Inr r2)
      show ?thesis
      proof (cases r2)
        case (Failure err)
        with r1 s1 r2 assms show ?thesis by (auto simp: validateRequest_def)
      next
        case s2: (Success headers)
        let ?q = "if jsonQuery then parseJsonQueryObject (req_query req) else req_query req"
        show ?thesis
        proof (cases "checkZodSchema ?q (member schema ''query'') None")
          case (Inl e)
          with r1 s1 r2 s2 assms show ?thesis by (simp add: validateRequest_def Let_def)
        next
          case r3: (Inr r3)
          show ?thesis
          proof (cases r3)
            case (Failure err)
            with r1 s1 r2 s2 r3 assms show ?thesis by (auto simp: validateRequest_def Let_def)
          next
            case (Success q)
            with r1 s1 r2 s2 r3 assms show ?thesis by (simp add: validateRequest_def Let_def)
          qed
        qed
      qed
    qed
  qed
qed

lemma validateRequest_at_first_failure:
  "checkZodSchema (req_params req) (member schema ''pathParams'') (Some True) = Inr (Failure err) \<Longrightarrow>
   validateRequest parseJsonQueryObject jsonQuery req schema =
     Inr ([(PathParams, req_params req, member schema ''pathParams'', Some True)],
          Inl (Send 400 err))"
  "checkZodSchema (req_params req) (member schema ''pathParams'') (Some True) = Inr (Success params) \<Longrightarrow>
   checkZodSchema (req_headers req) (member schema ''headers'') (Some True) = Inr (Failure err) \<Longrightarrow>
   validateRequest parseJsonQueryObject jsonQuery req schema =
     Inr ([(PathParams, req_params req, member schema ''pathParams'', Some True),
           (Headers, req_headers req, member schema ''headers'', Some True)],
          Inl (Send 400 err))"
  "checkZodSchema (req_params req) (member schema ''pathParams'') (Some True) = Inr (Success params) \<Longrightarrow>
   checkZodSchema (req_headers req) (member schema ''headers'') (Some True) = Inr (Success headers) \<Longrightarrow>
   checkZodSchema (if jsonQuery then parseJsonQueryObject (req_query req) else req_query req)
     (member schema ''query'') None = Inr (Failure err) \<Longrightarrow>
   validateRequest parseJsonQueryObject jsonQuery req schema =
     Inr ([(PathParams, req_params req, member schema ''pathParams'', Some True),
           (Headers, req_headers req, member schema ''headers'', Some True),
           (Query, (if jsonQuery then parseJsonQueryObject (req_query req) else req_query req),
              member schema ''query'', None)],
          Inl (Send 400 err))"
  "checkZodSchema (req_params req) (member schema ''pathParams'') (Some True) = Inr (Success params) \<Longrightarrow>
   checkZodSchema (req_headers req) (member schema ''headers'') (Some True) = Inr (Success headers) \<Longrightarrow>
   checkZodSchema (if jsonQuery then parseJsonQueryObject (req_query req) else req_query req)
     (member schema ''query'') None = Inr (Success q) \<Longrightarrow>
   validateRequest parseJsonQueryObject jsonQuery req schema =
     Inr ([(PathParams, req_params req, member schema ''pathParams'', Some True),
           (Headers, req_headers req, member schema ''headers'', Some True),
           (Query, (if jsonQuery then parseJsonQueryObject (req_query req) else req_query req),
              member schema ''query'', None)],
          Inr (Success params, Success headers, Success q))"
  by (simp_all add: validateRequest_def Let_def)

text \<open>
  Claim C2, as the code has it. For every matched request the next adapter's handler
  runs the four validations, path parameters, headers, query and body in this order,
  whatever their results. When none fails the implementation is called with the four
  values. When one fails and \<open>throwRequestValidation\<close> is set, the error thrown
  carries the error of each of the four categories; otherwise the handler answers 400
  with the error of the first failing category in that order, and only that one.
  The express adapter's \<open>validateRequest\<close> stops at the first category that fails:
  it has run the categories up to that one, in the same order, and answers 400 with that
  category's error. It checks path parameters, then headers, then query: when the path
  parameters fail it answers 400 with their error, having checked nothing else; when
  they pass and the headers fail, 400 with the headers' error; when both pass and the
  query fails, 400 with the query's error; when all three pass it returns the three
  values.
\<close>

theorem handlerFactory_validation:
  assumes "getArgumentsFromRequest req = Inr args" and "arg_route args = Some route"
  shows "(\<exists>outcome.
      handlerFactory check parseJsonQueryObject getArgumentsFromRequest options req =
        Inr ([(PathParams, arg_pathParams args, member route ''pathParams'', Some True),
              (Headers, req_headers req, member route ''headers'', Some True),
              (Query, (if orDefault options opt_jsonQuery then parseJsonQueryObject (arg_query args)
                       else req_query req), member route ''query'', None),
              (Body, req_body req, member route ''body'', None)], outcome) \<and>
      (case firstError
              [errorOf (check (arg_pathParams args) (member route ''pathParams'') (Some True)),
               errorOf (check (req_headers req) (member route ''headers'') (Some True)),
               errorOf (check (if orDefault options opt_jsonQuery
                               then parseJsonQueryObject (arg_query args) else req_query req)
                          (member route ''query'') None),
               errorOf (check (req_body req) (member route ''body'') None)] of
         None \<Rightarrow>
           outcome = Invoke
             \<lparr>inv_body = valueOf (check (req_body req) (member route ''body'') None),
              inv_query = valueOf (check (if orDefault options opt_jsonQuery
                                          then parseJsonQueryObject (arg_query args) else req_query req)
                                     (member route ''query'') None),
              inv_params = valueOf (check (arg_pathParams args) (member route ''pathParams'') (Some True)),
              inv_headers = valueOf (check (req_headers req) (member route ''headers'') (Some True))\<rparr>
       | Some e \<Rightarrow>
           (if orDefault options opt_throwRequestValidation then
              outcome = Throw (RequestValidationError
                (errorOf (check (arg_pathParams args) (member route ''pathParams'') (Some True)))
                (errorOf (check (req_headers req) (member route ''headers'') (Some True)))
                (errorOf (check (if orDefault options opt_jsonQuery
                                 then parseJsonQueryObject (arg_query args) else req_query req)
                            (member route ''query'') None))
                (errorOf (check (req_body req) (member route ''body'') None)))
            else (\<exists>reply. outcome = Reply reply \<and> replyStatus reply = 400 \<and> replyBody reply = Some e))))
    \<and> (validateRequest parseJsonQueryObject jsonQuery req schema = Inr (validations, Inl answer) \<longrightarrow>
         validations \<noteq> [] \<and>
         map fst validations = take (length validations) [PathParams, Headers, Query] \<and>
         (\<exists>err. answer = Send 400 err \<and>
                (case last validations of (c, d, s, p) \<Rightarrow> checkZodSchema d s p = Inr (Failure err))) \<and>
         list_all (\<lambda>(c, d, s, p). \<exists>v. checkZodSchema d s p = Inr (Success v)) (butlast validations))
    \<and> (checkZodSchema (req_params req) (member schema ''pathParams'') (Some True) = Inr (Failure err) \<longrightarrow>
         validateRequest parseJsonQueryObject jsonQuery req schema =
           Inr ([(PathParams, req_params req, member schema ''pathParams'', Some True)],
                Inl (Send 400 err)))
    \<and> (checkZodSchema (req_params req) (member schema ''pathParams'') (Some True) = Inr (Success params) \<and>
        checkZodSchema (req_headers req) (member schema ''headers'') (Some True) = Inr (Failure err) \<longrightarrow>
         validateRequest parseJsonQueryObject jsonQuery req schema =
           Inr ([(PathParams, req_params req, member schema ''pathParams'', Some True),
                 (Headers, req_headers req, member schema ''headers'', Some True)],
                Inl (Send 400 err)))
    \<and> (checkZodSchema (req_params req) (member schema ''pathParams'') (Some True) = Inr (Success params) \<and>
        checkZodSchema (req_headers req) (member schema ''headers'') (Some True) = Inr (Success headers) \<and>
        checkZodSchema (if jsonQuery then parseJsonQueryObject (req_query req) else req_query req)
          (member schema ''query'') None = Inr (Failure err) \<longrightarrow>
         validateRequest parseJsonQueryObject jsonQuery req schema =
           Inr ([(PathParams, req_params req, member schema ''pathParams'', Some True),
                 (Headers, req_headers req, member schema ''headers'', Some True),
                 (Query, (if jsonQuery then parseJsonQueryObject (req_query req) else req_query req),
                    member schema ''query'', None)],
                Inl (Send 400 err)))
    \<and> (checkZodSchema (req_params req) (member schema ''pathParams'') (Some True) = Inr (Success params) \<and>
        checkZodSchema (req_headers req) (member schema ''headers'') (Some True) = Inr (Success headers) \<and>
        checkZodSchema (if jsonQuery then parseJsonQueryObject (req_query req) else req_query req)
          (member schema ''query'') None = Inr (Success q) \<longrightarrow>
         validateRequest parseJsonQueryObject jsonQuery req schema =
           Inr ([(PathParams, req_params req, member schema ''pathParams'', Some True),
                 (Headers, req_headers req, member schema ''headers'', Some True),
                 (Query, (if jsonQuery then parseJsonQueryObject (req_query req) else req_query req),
                    member schema ''query'', None)],
                Inr (Success params, Success headers, Success q)))"
proof -
  let ?q = "if orDefault options opt_jsonQuery then parseJsonQueryObject (arg_query args) else req_query req"
  let ?a = "errorOf (check (arg_pathParams args) (member route ''pathParams'') (Some True))"
  let ?b = "errorOf (check (req_headers req) (member route ''headers'') (Some True))"
  let ?c = "errorOf (check ?q (member route ''query'') None)"
  let ?d = "errorOf (check (req_body req) (member route ''body'') None)"
  have next_adapter: "\<exists>outcome.
      handlerFactory check parseJsonQueryObject getArgumentsFromRequest options req =
        Inr ([(PathParams, arg_pathParams args, member route ''pathParams'', Some True),
              (Headers, req_headers req, member route ''headers'', Some True),
              (Query, ?q, member route ''query'', None),
              (Body, req_body req, member route ''body'', None)], outcome) \<and>
      (case firstError [?a, ?b, ?c, ?d] of
         None \<Rightarrow>
           outcome = Invoke
             \<lparr>inv_body = valueOf (check (req_body req) (member route ''body'') None),
              inv_query = valueOf (check ?q (member route ''query'') None),
              inv_params = valueOf (check (arg_pathParams args) (member route ''pathParams'') (Some True)),
              inv_headers = valueOf (check (req_headers req) (member route ''headers'') (Some True))\<rparr>
       | Some e \<Rightarrow>
           (if orDefault options opt_throwRequestValidation then
              outcome = Throw (RequestValidationError ?a ?b ?c ?d)
            else (\<exists>reply. outcome = Reply reply \<and> replyStatus reply = 400 \<and> replyBody reply = Some e)))"
    unfolding handlerFactory_matched
      [where getArgumentsFromRequest = getArgumentsFromRequest and req = req and check = check
         and parseJsonQueryObject = parseJsonQueryObject and options = options,
       OF assms refl refl refl refl refl]
    by (cases ?a; cases ?b; cases ?c; cases ?d) simp_all
  have express: "validateRequest parseJsonQueryObject jsonQuery req schema = Inr (validations, Inl answer) \<longrightarrow>
         validations \<noteq> [] \<and>
         map fst validations = take (length validations) [PathParams, Headers, Query] \<and>
         (\<exists>err. answer = Send 400 err \<and>
                (case last validations of (c, d, s, p) \<Rightarrow> checkZodSchema d s p = Inr (Failure err))) \<and>
         list_all (\<lambda>(c, d, s, p). \<exists>v. checkZodSchema d s p = Inr (Success v)) (butlast validations)"
    by (rule impI) (rule validateRequest_first_failure)
  note forward = validateRequest_at_first_failure
      [where req = req and schema = schema and parseJsonQueryObject = parseJsonQueryObject
         and jsonQuery = jsonQuery]
  from next_adapter express forward show ?thesis
    by (intro conjI impI; (elim conjE)?) blast+
qed

lemma updatePost_arguments:
  "createSingleRouteHandler updatePost (JFun 0) updatePostRequest =
     Inr \<lparr>arg_pathParams = JObj [(''id'', JStr ''1'')], arg_query = JObj [],
          arg_route = Some (JObj
            [(''method'', JStr ''POST''), (''path'', JStr ''/api/posts/:id''),
             (''pathParams'', JZod \<lparr>shape = [(''id'', ZodNumber)], unknownKeys = Strip, catchall = None\<rparr>),
             (''body'', JZod \<lparr>shape = [(''title'', ZodString)], unknownKeys = Strip, catchall = None\<rparr>),
             (''responses'', JObj [(''200'', JUndefined)]), (''implementation'', JFun 0)])\<rparr>"
  by (simp add: createSingleRouteHandler_def updatePost_def updatePostRequest_def
      getPathParamsFromArray_def isRouteCorrect_def segments_def)

lemma updatePost_checks:
  "zodChecker (JObj [(''id'', JStr ''1'')])
     (JZod \<lparr>shape = [(''id'', ZodNumber)], unknownKeys = Strip, catchall = None\<rparr>) (Some True)
     = Error [InvalidType [''id'']]"
  "zodChecker (JObj [])
     (JZod \<lparr>shape = [(''title'', ZodString)], unknownKeys = Strip, catchall = None\<rparr>) None
     = Error [InvalidType [''title'']]"
  "zodChecker data JUndefined opt = Value data"
  by (simp_all add: zodChecker_def checkZodSchema_def safeParse_def extraIssues_def extraValues_def
      extraKeys_def has_def)

lemma deletePost_arguments:
  "createSingleRouteHandler deletePost (JFun 0) deletePostRequest =
     Inr \<lparr>arg_pathParams = JObj [(''id'', JStr ''1'')], arg_query = JObj [],
          arg_route = Some (JObj (put ''implementation'' (JFun 0) (entries deletePost)))\<rparr>"
  by (simp add: createSingleRouteHandler_def deletePost_def deletePostRequest_def
      getPathParamsFromArray_def isRouteCorrect_def segments_def)

lemma deletePost_checks:
  "checkZodSchema (req_params deletePostRequest) (member deletePost ''pathParams'') (Some True)
     = Inr (Success (JObj [(''id'', JStr ''1'')]))"
  "checkZodSchema (req_headers deletePostRequest) (member deletePost ''headers'') (Some True)
     = Inr (Failure [InvalidType [''x-api-key'']])"
  "checkZodSchema (req_query deletePostRequest) (member deletePost ''query'') None
     = Inr (Failure [InvalidType [''force'']])"
  by (simp_all add: deletePost_def deletePostRequest_def checkZodSchema_def safeParse_def
      extraIssues_def extraValues_def extraKeys_def has_def spread_def assign_def)

theorem handlerFactory_validation_witness:
  "createSingleRouteHandler updatePost (JFun 0) updatePostRequest =
     Inr \<lparr>arg_pathParams = JObj [(''id'', JStr ''1'')], arg_query = JObj [],
          arg_route = Some (JObj
            [(''method'', JStr ''POST''), (''path'', JStr ''/api/posts/:id''),
             (''pathParams'', JZod \<lparr>shape = [(''id'', ZodNumber)], unknownKeys = Strip, catchall = None\<rparr>),
             (''body'', JZod \<lparr>shape = [(''title'', ZodString)], unknownKeys = Strip, catchall = None\<rparr>),
             (''responses'', JObj [(''200'', JUndefined)]), (''implementation'', JFun 0)])\<rparr>
   \<and> handlerFactory zodChecker (\<lambda>q. q) (createSingleRouteHandler updatePost (JFun 0))
        (Some \<lparr>opt_jsonQuery = None, opt_responseValidation = None,
               opt_throwRequestValidation = Some True\<rparr>) updatePostRequest
      = Inr ([(PathParams, JObj [(''id'', JStr ''1'')],
                 JZod \<lparr>shape = [(''id'', ZodNumber)], unknownKeys = Strip, catchall = None\<rparr>, Some True),
              (Headers, JObj [], JUndefined, Some True),
              (Query, JObj [(''id'', JStr ''1'')], JUndefined, None),
              (Body, JObj [],
                 JZod \<lparr>shape = [(''title'', ZodString)], unknownKeys = Strip, catchall = None\<rparr>, None)],
             Throw (RequestValidationError (Some [InvalidType [''id'']]) None None
                      (Some [InvalidType [''title'']])))
   \<and> validateRequest (\<lambda>q. q) False updatePostRequest updatePost
      = Inr ([(PathParams, JObj [(''id'', JStr ''1'')],
                 JZod \<lparr>shape = [(''id'', ZodNumber)], unknownKeys = Strip, catchall = None\<rparr>, Some True)],
             Inl (Send 400 [InvalidType [''id'']]))
   \<and> checkZodSchema (JObj [(''id'', JStr ''1'')])
        (JZod \<lparr>shape = [(''id'', ZodNumber)], unknownKeys = Strip, catchall = None\<rparr>) (Some True)
      = Inr (Failure [InvalidType [''id'']])
   \<and> checkZodSchema (req_params deletePostRequest) (member deletePost ''pathParams'') (Some True)
      = Inr (Success (JObj [(''id'', JStr ''1'')]))
   \<and> checkZodSchema (req_headers deletePostRequest) (member deletePost ''headers'') (Some True)
      = Inr (Failure [InvalidType [''x-api-key'']])
   \<and> checkZodSchema (req_query deletePostRequest) (member deletePost ''query'') None
      = Inr (Failure [InvalidType [''force'']])
   \<and> validateRequest (\<lambda>q. q) False deletePostRequest deletePost
      = Inr ([(PathParams, req_params deletePostRequest, member deletePost ''pathParams'', Some True),
              (Headers, req_headers deletePostRequest, member deletePost ''headers'', Some True)],
             Inl (Send 400 [InvalidType [''x-api-key'']]))"
proof -
  let ?route = "JObj
            [(''method'', JStr ''POST''), (''path'', JStr ''/api/posts/:id''),
             (''pathParams'', JZod \<lparr>shape = [(''id'', ZodNumber)], unknownKeys = Strip, catchall = None\<rparr>),
             (''body'', JZod \<lparr>shape = [(''title'', ZodString)], unknownKeys = Strip, catchall = None\<rparr>),
             (''responses'', JObj [(''200'', JUndefined)]), (''implementation'', JFun 0)]"
  let ?args = "\<lparr>arg_pathParams = JObj [(''id'', JStr ''1'')], arg_query = JObj [],
                arg_route = Some ?route\<rparr>"
  let ?options = "Some \<lparr>opt_jsonQuery = None, opt_responseValidation = None,
                         opt_throwRequestValidation = Some True\<rparr>"
  let ?validations = "[(PathParams, JObj [(''id'', JStr ''1'')],
                 JZod \<lparr>shape = [(''id'', ZodNumber)], unknownKeys = Strip, catchall = None\<rparr>, Some True)]"
  let ?dargs = "\<lparr>arg_pathParams = JObj [(''id'', JStr ''1'')], arg_query = JObj [],
                 arg_route = Some (JObj (put ''implementation'' (JFun 0) (entries deletePost)))\<rparr>"
  note a = updatePost_arguments
  have r: "arg_route ?args = Some ?route" by simp
  have v: "validateRequest (\<lambda>q. q) False updatePostRequest updatePost
             = Inr (?validations, Inl (Send 400 [InvalidType [''id'']]))"
    by (simp add: validateRequest_def updatePost_def updatePostRequest_def checkZodSchema_def
        safeParse_def extraIssues_def extraValues_def extraKeys_def has_def)
  note t = handlerFactory_validation
      [where getArgumentsFromRequest = "createSingleRouteHandler updatePost (JFun 0)"
         and req = updatePostRequest and args = ?args and route = ?route and check = zodChecker
         and parseJsonQueryObject = "\<lambda>q. q" and options = ?options and jsonQuery = False
         and schema = updatePost and validations = ?validations
         and answer = "Send 400 [InvalidType [''id'']]", OF a r]
  have dr: "arg_route ?dargs = Some (JObj (put ''implementation'' (JFun 0) (entries deletePost)))"
    by simp
  note u = handlerFactory_validation
      [where getArgumentsFromRequest = "createSingleRouteHandler deletePost (JFun 0)"
         and req = deletePostRequest and args = ?dargs
         and route = "JObj (put ''implementation'' (JFun 0) (entries deletePost))"
         and parseJsonQueryObject = "\<lambda>q. q" and jsonQuery = False and schema = deletePost
         and params = "JObj [(''id'', JStr ''1'')]" and err = "[InvalidType [''x-api-key'']]",
       OF deletePost_arguments dr]
  from t have 1: "\<exists>outcome.
      handlerFactory zodChecker (\<lambda>q. q) (createSingleRouteHandler updatePost (JFun 0)) ?options
        updatePostRequest
        = Inr ([(PathParams, JObj [(''id'', JStr ''1'')],
                 JZod \<lparr>shape = [(''id'', ZodNumber)], unknownKeys = Strip, catchall = None\<rparr>, Some True),
              (Headers, JObj [], JUndefined, Some True),
              (Query, JObj [(''id'', JStr ''1'')], JUndefined, None),
              (Body, JObj [],
                 JZod \<lparr>shape = [(''title'', ZodString)], unknownKeys = Strip, catchall = None\<rparr>, None)],
             outcome) \<and>
      outcome = Throw (RequestValidationError (Some [InvalidType [''id'']]) None None
                      (Some [InvalidType [''title'']]))"
    by (simp add: updatePostRequest_def orDefault_def updatePost_checks)
  from t v have 2: "\<exists>err. Send 400 [InvalidType [''id'']] = Send 400 err \<and>
      (case last ?validations of (c, d, s, p) \<Rightarrow> checkZodSchema d s p = Inr (Failure err))"
    by blast
  then have 3: "checkZodSchema (JObj [(''id'', JStr ''1'')])
        (JZod \<lparr>shape = [(''id'', ZodNumber)], unknownKeys = Strip, catchall = None\<rparr>) (Some True)
      = Inr (Failure [InvalidType [''id'']])"
    by simp
  have 4: "validateRequest (\<lambda>q. q) False deletePostRequest deletePost
      = Inr ([(PathParams, req_params deletePostRequest, member deletePost ''pathParams'', Some True),
              (Headers, req_headers deletePostRequest, member deletePost ''headers'', Some True)],
             Inl (Send 400 [InvalidType [''x-api-key'']]))"
    using u deletePost_checks(1,2) by blast
  from a 1 v 3 4 deletePost_checks show ?thesis by simp
qed

theorem handlerFactory_first_category_counterexample:
  "handlerFactory zodChecker (\<lambda>q. q) (createSingleRouteHandler updatePost (JFun 0)) None
     updatePostRequest
   = Inr ([(PathParams, JObj [(''id'', JStr ''1'')],
              JZod \<lparr>shape = [(''id'', ZodNumber)], unknownKeys = Strip, catchall = None\<rparr>, Some True),
           (Headers, JObj [], JUndefined, Some True),
           (Query, JObj [(''id'', JStr ''1'')], JUndefined, None),
           (Body, JObj [],
              JZod \<lparr>shape = [(''title'', ZodString)], unknownKeys = Strip, catchall = None\<rparr>, None)],
          Reply (Json 400 [InvalidType [''id'']]))
   \<and> zodChecker (JObj [])
        (JZod \<lparr>shape = [(''title'', ZodString)], unknownKeys = Strip, catchall = None\<rparr>) None
      = Error [InvalidType [''title'']]
   \<and> InvalidType [''title''] \<notin> set [InvalidType [''id'']]"
proof -
  have "handlerFactory zodChecker (\<lambda>q. q) (createSingleRouteHandler updatePost (JFun 0)) None
     updatePostRequest
   = Inr ([(PathParams, JObj [(''id'', JStr ''1'')],
              JZod \<lparr>shape = [(''id'', ZodNumber)], unknownKeys = Strip, catchall = None\<rparr>, Some True),
           (Headers, JObj [], JUndefined, Some True),
           (Query, JObj [(''id'', JStr ''1'')], JUndefined, None),
           (Body, JObj [],
              JZod \<lparr>shape = [(''title'', ZodString)], unknownKeys = Strip, catchall = None\<rparr>, None)],
          Reply (Json 400 [InvalidType [''id'']]))"
    using handlerFactory_matched
      [where getArgumentsFromRequest = "createSingleRouteHandler updatePost (JFun 0)"
         and req = updatePostRequest and check = zodChecker and parseJsonQueryObject = "\<lambda>q. q"
         and options = None, OF updatePost_arguments _ refl refl refl refl refl]
    by (simp add: updatePostRequest_def orDefault_def updatePost_checks)
  then show ?thesis by (simp add: updatePost_checks)
qed

text \<open>
  Claim C10, evaluated on a request for a route with a path parameter. The argument
  function of \<open>createSingleRouteHandler\<close> returns the request's query without the
  keys that are bound path parameters, here the empty object. The handler passes that
  object on only when \<open>jsonQuery\<close> is set; otherwise it validates \<open>req.query\<close>
  itself, and the implementation receives the query with \<open>id\<close> still in it.
\<close>

theorem createSingleRouteHandler_query:
  "createSingleRouteHandler getPostById (JFun 0) getPostByIdRequest =
     Inr \<lparr>arg_pathParams = JObj [(''id'', JStr ''1'')], arg_query = JObj [],
          arg_route = Some (JObj
            [(''method'', JStr ''GET''), (''path'', JStr ''/api/posts/:id''),
             (''responses'', JObj [(''200'', JUndefined)]), (''implementation'', JFun 0)])\<rparr>
   \<and> handlerFactory zodChecker parseJsonQueryObject (createSingleRouteHandler getPostById (JFun 0))
        None getPostByIdRequest
      = Inr ([(PathParams, JObj [(''id'', JStr ''1'')], JUndefined, Some True),
              (Headers, JObj [], JUndefined, Some True),
              (Query, JObj [(''id'', JStr ''1'')], JUndefined, None),
              (Body, JUndefined, JUndefined, None)],
             Invoke \<lparr>inv_body = JUndefined, inv_query = JObj [(''id'', JStr ''1'')],
                     inv_params = JObj [(''id'', JStr ''1'')], inv_headers = JObj []\<rparr>)
   \<and> handlerFactory zodChecker parseJsonQueryObject (createSingleRouteHandler getPostById (JFun 0))
        (Some \<lparr>opt_jsonQuery = Some True, opt_responseValidation = None,
               opt_throwRequestValidation = None\<rparr>) getPostByIdRequest
      = Inr ([(PathParams, JObj [(''id'', JStr ''1'')], JUndefined, Some True),
              (Headers, JObj [], JUndefined, Some True),
              (Query, parseJsonQueryObject (JObj []), JUndefined, None),
              (Body, JUndefined, JUndefined, None)],
             Invoke \<lparr>inv_body = JUndefined, inv_query = parseJsonQueryObject (JObj []),
                     inv_params = JObj [(''id'', JStr ''1'')], inv_headers = JObj []\<rparr>)"
proof -
  let ?json = "Some \<lparr>opt_jsonQuery = Some True, opt_responseValidation = None,
                      opt_throwRequestValidation = None\<rparr>"
  have a: "createSingleRouteHandler getPostById (JFun 0) getPostByIdRequest =
     Inr \<lparr>arg_pathParams = JObj [(''id'', JStr ''1'')], arg_query = JObj [],
          arg_route = Some (JObj
            [(''method'', JStr ''GET''), (''path'', JStr ''/api/posts/:id''),
             (''responses'', JObj [(''200'', JUndefined)]), (''implementation'', JFun 0)])\<rparr>"
    by (simp add: createSingleRouteHandler_def getPostById_def getPostByIdRequest_def
        getPathParamsFromArray_def isRouteCorrect_def segments_def)
  have 1: "handlerFactory zodChecker parseJsonQueryObject (createSingleRouteHandler getPostById (JFun 0))
        None getPostByIdRequest
      = Inr ([(PathParams, JObj [(''id'', JStr ''1'')], JUndefined, Some True),
              (Headers, JObj [], JUndefined, Some True),
              (Query, JObj [(''id'', JStr ''1'')], JUndefined, None),
              (Body, JUndefined, JUndefined, None)],
             Invoke \<lparr>inv_body = JUndefined, inv_query = JObj [(''id'', JStr ''1'')],
                     inv_params = JObj [(''id'', JStr ''1'')], inv_headers = JObj []\<rparr>)"
    using handlerFactory_matched
      [where getArgumentsFromRequest = "createSingleRouteHandler getPostById (JFun 0)"
         and req = getPostByIdRequest and check = zodChecker
         and parseJsonQueryObject = parseJsonQueryObject and options = None,
       OF a _ refl refl refl refl refl]
    by (simp add: getPostByIdRequest_def orDefault_def updatePost_checks)
  have 2: "handlerFactory zodChecker parseJsonQueryObject (createSingleRouteHandler getPostById (JFun 0))
        ?json getPostByIdRequest
      = Inr ([(PathParams, JObj [(''id'', JStr ''1'')], JUndefined, Some True),
              (Headers, JObj [], JUndefined, Some True),
              (Query, parseJsonQueryObject (JObj []), JUndefined, None),
              (Body, JUndefined, JUndefined, None)],
             Invoke \<lparr>inv_body = JUndefined, inv_query = parseJsonQueryObject (JObj []),
                     inv_params = JObj [(''id'', JStr ''1'')], inv_headers = JObj []\<rparr>)"
    using handlerFactory_matched
      [where getArgumentsFromRequest = "createSingleRouteHandler getPostById (JFun 0)"
         and req = getPostByIdRequest and check = zodChecker
         and parseJsonQueryObject = parseJsonQueryObject and options = ?json,
       OF a _ refl refl refl refl refl]
    by (simp add: getPostByIdRequest_def orDefault_def updatePost_checks)
  from a 1 2 show ?thesis by simp
qed

end
